theory Spec2Isabelle
  imports Main "HOL-Library.Word" "HOL-Library.Multiset"
begin

section \<open>Types of the dashboard (types/index.ts)\<close>

text \<open>
  A JavaScript string is a sequence of UTF-16 code units. Text typed by the user (a job
  name) is modelled as such a sequence, since \<open>String.prototype.trim\<close> is defined on code
  units. Fixed ASCII literals of the program (status names, messages, query-key parts) and
  the ISO timestamps are HOL strings.
\<close>

type_synonym code_unit = "16 word"
type_synonym js_string = "code_unit list"

datatype StatusType = PENDING | RUNNING | COMPLETED | FAILED

record Job =
  id :: int
  name :: js_string
  created_at :: string
  updated_at :: string
  current_status :: "StatusType option"

record 'a PaginatedResponse =
  count :: nat
  "next" :: "string option"
  previous :: "string option"
  results :: "'a list"

record CreateJobPayload =
  payload_name :: js_string

record JobStatusEntry =
  entry_id :: int
  status_type :: StatusType
  timestamp :: string

definition ALL_STATUSES :: "StatusType list" where
  "ALL_STATUSES = [PENDING, RUNNING, COMPLETED, FAILED]"

fun STATUS_LABELS :: "StatusType \<Rightarrow> string" where
  "STATUS_LABELS PENDING = ''Pending''"
| "STATUS_LABELS RUNNING = ''Running''"
| "STATUS_LABELS COMPLETED = ''Completed''"
| "STATUS_LABELS FAILED = ''Failed''"

section \<open>The job card (components/JobCard.tsx)\<close>

fun STATUS_COLORS :: "StatusType \<Rightarrow> string" where
  "STATUS_COLORS PENDING = ''bg-yellow-100 text-yellow-800''"
| "STATUS_COLORS RUNNING = ''bg-blue-100   text-blue-800''"
| "STATUS_COLORS COMPLETED = ''bg-green-100  text-green-800''"
| "STATUS_COLORS FAILED = ''bg-red-100    text-red-800''"

text \<open>
  What \<open>useMutation\<close> hands to the component: \<open>isPending\<close>, and \<open>isError\<close> with the
  message of the error (\<open>mutation_error = Some m\<close> stands for \<open>isError\<close> with
  \<open>error.message = m\<close>).
\<close>

record mutation_result =
  isPending :: bool
  mutation_error :: "string option"

text \<open>
  What the card reads of the history query: \<open>data\<close> (\<open>None\<close> is \<open>undefined\<close>) and
  \<open>isLoading\<close>. The card reads neither \<open>isError\<close> nor \<open>error\<close> of this query.
\<close>

record history_result =
  history_data :: "JobStatusEntry list option"
  historyLoading :: bool

record badge =
  badge_class :: string
  badge_label :: string

record status_option =
  option_value :: StatusType
  option_label :: string

datatype history_panel =
    Loading_history
  | History_list "badge list" "JobStatusEntry list"
  | No_status_changes_yet

record JobCard_view =
  card_name :: js_string
  status_badge :: "badge option"
  select_disabled :: bool
  select_options :: "status_option list"
  history_button :: string
  delete_disabled :: bool
  delete_button :: string
  update_failed :: "string option"
  delete_failed :: "string option"
  panel :: "history_panel option"

definition entry_badge :: "JobStatusEntry \<Rightarrow> badge" where
  "entry_badge entry =
     \<lparr>badge_class = STATUS_COLORS (status_type entry),
      badge_label = STATUS_LABELS (status_type entry)\<rparr>"

text \<open>
  The history panel: \<open>history && history.slice(1).length > 0\<close> guards the list, which is
  \<open>[...history].slice(1).reverse()\<close>. An array is truthy even when empty, so only
  \<open>undefined\<close> fails the first conjunct.
\<close>

definition history_panel_view :: "history_result \<Rightarrow> history_panel" where
  "history_panel_view h =
     (if historyLoading h then Loading_history
      else (case history_data h of
              None \<Rightarrow> No_status_changes_yet
            | Some history \<Rightarrow>
                if length (drop 1 history) > 0
                then History_list (map entry_badge (rev (drop 1 history))) (rev (drop 1 history))
                else No_status_changes_yet))"

definition JobCard ::
  "Job \<Rightarrow> bool \<Rightarrow> history_result \<Rightarrow> mutation_result \<Rightarrow> mutation_result \<Rightarrow> JobCard_view" where
  "JobCard job showHistory history updateMutation deleteMutation =
     (let isLoading = (isPending updateMutation \<or> isPending deleteMutation) in
      \<lparr>card_name = name job,
       status_badge =
         (case current_status job of
            None \<Rightarrow> None
          | Some s \<Rightarrow> Some \<lparr>badge_class = STATUS_COLORS s, badge_label = STATUS_LABELS s\<rparr>),
       select_disabled = isLoading,
       select_options =
         map (\<lambda>s. \<lparr>option_value = s, option_label = STATUS_LABELS s\<rparr>)
             (filter (\<lambda>s. Some s \<noteq> current_status job) ALL_STATUSES),
       history_button = (if showHistory then ''Hide History'' else ''History''),
       delete_disabled = isLoading,
       delete_button = (if isPending deleteMutation then ''Deleting...'' else ''Delete''),
       update_failed = mutation_error updateMutation,
       delete_failed = mutation_error deleteMutation,
       panel = (if showHistory then Some (history_panel_view history) else None)\<rparr>)"

text \<open>\<open>useQuery({ ..., enabled: showHistory })\<close>: the options the card passes for its history.\<close>

datatype key_part = KStr string | KNum int

type_synonym query_key = "key_part list"

record history_query_options =
  history_queryKey :: query_key
  history_job :: int
  enabled :: bool

definition JobCard_history_query :: "Job \<Rightarrow> bool \<Rightarrow> history_query_options" where
  "JobCard_history_query job showHistory =
     \<lparr>history_queryKey = [KStr ''jobs'', KNum (id job), KStr ''history''],
      history_job = id job,
      enabled = showHistory\<rparr>"

section \<open>The create-job form (components/CreateJobForm.tsx)\<close>

text \<open>
  \<open>String.prototype.trim\<close> removes WhiteSpace and LineTerminator code units from both
  ends (ECMA-262, 22.1.3.32): TAB, LF, VT, FF, CR, SP, NBSP, the Unicode space separators,
  LS, PS and the byte order mark.
\<close>

definition is_white_space :: "code_unit \<Rightarrow> bool" where
  "is_white_space u =
     (u = 0x0009 \<or> u = 0x000A \<or> u = 0x000B \<or> u = 0x000C \<or> u = 0x000D \<or> u = 0x0020
      \<or> u = 0x00A0 \<or> u = 0x1680 \<or> (0x2000 \<le> u \<and> u \<le> 0x200A) \<or> u = 0x2028 \<or> u = 0x2029
      \<or> u = 0x202F \<or> u = 0x205F \<or> u = 0x3000 \<or> u = 0xFEFF)"

definition trim :: "js_string \<Rightarrow> js_string" where
  "trim s = rev (dropWhile is_white_space (rev (dropWhile is_white_space s)))"

text \<open>
  The form's state (\<open>name\<close>, \<open>validationError\<close>) together with the calls of
  \<open>mutation.mutate\<close> made so far: each is one invocation of \<open>createJob\<close> with that payload.
\<close>

record form_state =
  form_name :: js_string
  validationError :: string
  mutate_calls :: "CreateJobPayload list"

definition handleSubmit :: "form_state \<Rightarrow> form_state" where
  "handleSubmit s =
     (if trim (form_name s) = []
      then s\<lparr>validationError := ''Job name cannot be empty''\<rparr>
      else s\<lparr>validationError := [],
             mutate_calls := mutate_calls s @ [\<lparr>payload_name = trim (form_name s)\<rparr>]\<rparr>)"

section \<open>The API layer (api/jobs.ts)\<close>

text \<open>
  \<open>String(n)\<close> for an integer: decimal digits, with a minus sign when negative.
\<close>

definition digit_char :: "nat \<Rightarrow> char" where
  "digit_char d = ''0123456789'' ! d"

function String_nat :: "nat \<Rightarrow> string" where
  "String_nat n =
     (if n < 10 then [digit_char n] else String_nat (n div 10) @ [digit_char (n mod 10)])"
  by pat_completeness auto
termination
  by (relation "measure (\<lambda>n. n)") auto

declare String_nat.simps [simp del]

definition String_int :: "int \<Rightarrow> string" where
  "String_int i = (if i < 0 then CHR ''-'' # String_nat (nat (- i)) else String_nat (nat i))"

text \<open>
  A parsed JSON value. Numbers are integers here: the only numbers the program turns into
  text are status codes and page numbers. Object members are in the order of the text; of
  members with the same name the last one counts, as in \<open>JSON.parse\<close>.
\<close>

datatype json =
    JNull
  | JBool bool
  | JNum int
  | JStr string
  | JArr "json list"
  | JObj "(string \<times> json) list"

text \<open>
  \<open>body?.error\<close>: \<open>None\<close> is \<open>undefined\<close>. Optional chaining yields \<open>undefined\<close> on
  \<open>null\<close>; a property that a JSON array, string, number or boolean does not have reads as
  \<open>undefined\<close> too. Of a name that the body text repeats, the object that \<open>res.json()\<close>
  builds keeps the last value.
\<close>

fun optional_member :: "json \<Rightarrow> string \<Rightarrow> json option" where
  "optional_member (JObj members) k = map_of (rev members) k"
| "optional_member _ k = None"

text \<open>\<open>a ?? b\<close>: the left operand unless it is \<open>null\<close> or \<open>undefined\<close>.\<close>

definition nullish :: "json option \<Rightarrow> bool" where
  "nullish v = (v = None \<or> v = Some JNull)"

definition coalesce :: "json option \<Rightarrow> json option \<Rightarrow> json option" where
  "coalesce a b = (if nullish a then b else a)"

text \<open>
  \<open>new Error(message)\<close> stores \<open>ToString(message)\<close>. For an array that is the elements
  joined by commas, \<open>null\<close> elements as the empty string; for any other object it is
  \<open>[object Object]\<close>.
\<close>

fun join_comma :: "string list \<Rightarrow> string" where
  "join_comma [] = []"
| "join_comma [x] = x"
| "join_comma (x # y # ys) = x @ '','' @ join_comma (y # ys)"

fun ToString :: "json \<Rightarrow> string" where
  "ToString JNull = ''null''"
| "ToString (JBool b) = (if b then ''true'' else ''false'')"
| "ToString (JNum n) = String_int n"
| "ToString (JStr s) = s"
| "ToString (JArr xs) = join_comma (map (\<lambda>x. if x = JNull then [] else ToString x) xs)"
| "ToString (JObj members) = ''[object Object]''"

text \<open>
  What a promise of the API layer rejects with: an \<open>Error\<close> made by the layer itself, the
  \<open>SyntaxError\<close> of \<open>res.json()\<close> on a body that is not JSON, or the \<open>TypeError\<close> of a
  \<open>fetch\<close> that got no response (and of \<open>new URL\<close> on a string that is no URL).
\<close>

datatype js_error = Error string | SyntaxError | TypeError

fun error_message :: "js_error \<Rightarrow> string" where
  "error_message (Error m) = m"
| "error_message SyntaxError = ''SyntaxError''"
| "error_message TypeError = ''TypeError''"

text \<open>
  A \<open>Response\<close>: its status, and what \<open>res.json()\<close> gives (\<open>None\<close> when the body is not
  valid JSON and the promise rejects). \<open>res.ok\<close> is true exactly for a status in 200..299.
\<close>

record Response =
  status :: nat
  json_body :: "json option"

definition ok :: "Response \<Rightarrow> bool" where
  "ok res = (200 \<le> status res \<and> status res \<le> 299)"

definition failure_message :: "string \<Rightarrow> Response \<Rightarrow> string" where
  "failure_message generic res =
     (let body = (case json_body res of None \<Rightarrow> JNull | Some b \<Rightarrow> b) in
      case coalesce (coalesce (optional_member body ''error'') (optional_member body ''detail''))
                    (Some (JStr (generic @ String_nat (status res)))) of
        None \<Rightarrow> ''undefined''
      | Some message \<Rightarrow> ToString message)"

text \<open>
  \<open>handleResponse<T>\<close>. The type assertion \<open>res.json() as Promise<T>\<close> checks nothing at
  run time; \<open>cast\<close> is the reading of the JSON value at type \<open>T\<close>.
\<close>

definition handleResponse :: "(json \<Rightarrow> 'a) \<Rightarrow> Response \<Rightarrow> js_error + 'a" where
  "handleResponse cast res =
     (if \<not> ok res then Inl (Error (failure_message ''Request failed with status '' res))
      else (case json_body res of
              None \<Rightarrow> Inl SyntaxError
            | Some b \<Rightarrow> Inr (cast b)))"

datatype http_method = GET | POST | PATCH | DELETE

datatype request_body = Create_body CreateJobPayload | Update_body StatusType

text \<open>
  A request: the path, the \<open>URLSearchParams\<close> as the list of pairs it is, and the payload
  handed to \<open>JSON.stringify\<close>.
\<close>

record request =
  req_method :: http_method
  path :: string
  params :: "(string \<times> string) list"
  body :: "request_body option"

text \<open>\<open>URLSearchParams.set\<close>: replaces the first pair of that name and drops the others,
  or appends the pair.\<close>

fun URLSearchParams_set :: "(string \<times> string) list \<Rightarrow> string \<Rightarrow> string \<Rightarrow> (string \<times> string) list" where
  "URLSearchParams_set [] k v = [(k, v)]"
| "URLSearchParams_set ((k', v') # ps) k v =
     (if k' = k then (k, v) # filter (\<lambda>p. fst p \<noteq> k) ps
      else (k', v') # URLSearchParams_set ps k v)"

definition BASE :: string where
  "BASE = ''/api''"

text \<open>
  \<open>fetch\<close> is the environment: \<open>None\<close> when it rejects (no response), else the response.
\<close>

type_synonym fetch = "request \<Rightarrow> Response option"

definition fetchJobs ::
  "(json \<Rightarrow> Job PaginatedResponse) \<Rightarrow> fetch \<Rightarrow> int \<Rightarrow> string \<Rightarrow> string
     \<Rightarrow> js_error + Job PaginatedResponse" where
  "fetchJobs cast http pageParam filter_value sort_value =
     (let params0 = [(''page'', String_int pageParam), (''sort'', sort_value)];
          params1 = (if filter_value \<noteq> ''ALL''
                     then URLSearchParams_set params0 ''status'' filter_value else params0)
      in case http \<lparr>req_method = GET, path = BASE @ ''/jobs/'', params = params1, body = None\<rparr> of
           None \<Rightarrow> Inl TypeError
         | Some res \<Rightarrow> handleResponse cast res)"

definition createJob :: "(json \<Rightarrow> Job) \<Rightarrow> fetch \<Rightarrow> CreateJobPayload \<Rightarrow> js_error + Job" where
  "createJob cast http payload =
     (case http \<lparr>req_method = POST, path = BASE @ ''/jobs/'', params = [],
                 body = Some (Create_body payload)\<rparr> of
        None \<Rightarrow> Inl TypeError
      | Some res \<Rightarrow> handleResponse cast res)"

definition updateJobStatus :: "(json \<Rightarrow> Job) \<Rightarrow> fetch \<Rightarrow> int \<Rightarrow> StatusType \<Rightarrow> js_error + Job" where
  "updateJobStatus cast http job_id new_status =
     (case http \<lparr>req_method = PATCH, path = BASE @ ''/jobs/'' @ String_int job_id @ ''/'', params = [],
                 body = Some (Update_body new_status)\<rparr> of
        None \<Rightarrow> Inl TypeError
      | Some res \<Rightarrow> handleResponse cast res)"

definition fetchJobHistory ::
  "(json \<Rightarrow> JobStatusEntry list) \<Rightarrow> fetch \<Rightarrow> int \<Rightarrow> js_error + JobStatusEntry list" where
  "fetchJobHistory cast http job_id =
     (case http \<lparr>req_method = GET, path = BASE @ ''/jobs/'' @ String_int job_id @ ''/history/'',
                 params = [], body = None\<rparr> of
        None \<Rightarrow> Inl TypeError
      | Some res \<Rightarrow> handleResponse cast res)"

definition deleteJob :: "fetch \<Rightarrow> int \<Rightarrow> js_error + unit" where
  "deleteJob http job_id =
     (case http \<lparr>req_method = DELETE, path = BASE @ ''/jobs/'' @ String_int job_id @ ''/'', params = [],
                 body = None\<rparr> of
        None \<Rightarrow> Inl TypeError
      | Some res \<Rightarrow>
          if \<not> ok res then Inl (Error (failure_message ''Delete failed with status '' res))
          else Inr ())"

section \<open>The query client (App.tsx) and the parts of its library the program relies on\<close>

text \<open>
  \<open>new QueryClient({ defaultOptions: { queries: { retry: 1, staleTime: 30_000 } } })\<close>.
  An option that is not given is \<open>None\<close>; the library then takes its own default, which
  is three retries for a query and none for a mutation.
\<close>

record defaultOptions =
  queries_retry :: "nat option"
  queries_staleTime :: "nat option"
  mutations_retry :: "nat option"

definition queryClient :: defaultOptions where
  "queryClient = \<lparr>queries_retry = Some 1, queries_staleTime = Some 30000, mutations_retry = None\<rparr>"

definition query_retry :: "defaultOptions \<Rightarrow> nat" where
  "query_retry opts = (case queries_retry opts of None \<Rightarrow> 3 | Some n \<Rightarrow> n)"

definition mutation_retry :: "defaultOptions \<Rightarrow> nat" where
  "mutation_retry opts = (case mutations_retry opts of None \<Rightarrow> 0 | Some n \<Rightarrow> n)"

text \<open>
  The library's retryer: it runs the function, and on a failure runs it again while the
  number of failures so far is below \<open>retry\<close>. \<open>fn i\<close> is the outcome of the run made
  after \<open>i\<close> failures (the waiting time between runs is not modelled). The result is the
  number of runs made and the final outcome.
\<close>

function retryer :: "nat \<Rightarrow> nat \<Rightarrow> (nat \<Rightarrow> 'e + 'a) \<Rightarrow> nat \<times> ('e + 'a)" where
  "retryer retry failureCount fn =
     (case fn failureCount of
        Inr v \<Rightarrow> (Suc failureCount, Inr v)
      | Inl e \<Rightarrow>
          if failureCount < retry then retryer retry (Suc failureCount) fn
          else (Suc failureCount, Inl e))"
  by pat_completeness auto
termination
  by (relation "measure (\<lambda>(retry, failureCount, fn). retry - failureCount)") auto

declare retryer.simps [simp del]

text \<open>
  The cache: query states by query key. A list query holds \<open>{ pages, pageParams }\<close>, a
  history query the entries. Staleness by age (\<open>staleTime\<close>) needs a clock and is left out:
  a query is fetched on a read when it has no data or is invalidated.
\<close>

record 'p infinite_data =
  pages :: "'p list"
  pageParams :: "int list"

datatype query_data =
    Job_pages "Job PaginatedResponse infinite_data"
  | Job_history "JobStatusEntry list"

record query_state =
  state_data :: "query_data option"
  state_error :: "js_error option"
  isInvalidated :: bool

type_synonym query_cache = "query_key \<Rightarrow> query_state option"

text \<open>\<open>partialMatchKey(queryKey, filterKey)\<close> on arrays of primitives: every index of the
  filter key holds the same value in the query key.\<close>

fun partialMatchKey :: "query_key \<Rightarrow> query_key \<Rightarrow> bool" where
  "partialMatchKey a [] = True"
| "partialMatchKey [] (y # ys) = False"
| "partialMatchKey (x # xs) (y # ys) = (x = y \<and> partialMatchKey xs ys)"

definition invalidateQueries :: "query_key \<Rightarrow> query_cache \<Rightarrow> query_cache" where
  "invalidateQueries filterKey cache =
     (\<lambda>k. case cache k of
            None \<Rightarrow> None
          | Some q \<Rightarrow> Some (if partialMatchKey k filterKey then q\<lparr>isInvalidated := True\<rparr> else q))"

definition needs_fetch :: "query_state option \<Rightarrow> bool" where
  "needs_fetch q = (case q of None \<Rightarrow> True | Some st \<Rightarrow> state_data st = None \<or> isInvalidated st)"

text \<open>A fetch that succeeded stores the data and clears the error and the invalidation;
  one that failed stores the error and keeps the rest.\<close>

definition settle :: "query_state option \<Rightarrow> js_error + query_data \<Rightarrow> query_state" where
  "settle old outcome =
     (case outcome of
        Inr d \<Rightarrow> \<lparr>state_data = Some d, state_error = None, isInvalidated = False\<rparr>
      | Inl e \<Rightarrow>
          (case old of
             None \<Rightarrow> \<lparr>state_data = None, state_error = Some e, isInvalidated = False\<rparr>
           | Some st \<Rightarrow> st\<lparr>state_error := Some e\<rparr>))"

text \<open>
  The infinite-query behaviour. \<open>nextPageParam\<close> asks the option \<open>getNextPageParam\<close> about
  the last page, and is \<open>undefined\<close> without pages. A fetch of the next page appends one
  page; it does nothing when there is no next page parameter. A fetch of the whole query
  starts again from the first page parameter and follows \<open>getNextPageParam\<close> for at most as
  many pages as were held, stopping early when there is no next page.
\<close>

definition nextPageParam ::
  "('p \<Rightarrow> js_error + int option) \<Rightarrow> 'p infinite_data \<Rightarrow> js_error + int option" where
  "nextPageParam getNext d = (if pages d = [] then Inr None else getNext (last (pages d)))"

definition fetchPage ::
  "(int \<Rightarrow> js_error + 'p) \<Rightarrow> 'p infinite_data \<Rightarrow> int \<Rightarrow> js_error + 'p infinite_data" where
  "fetchPage queryFn d param =
     (case queryFn param of
        Inl e \<Rightarrow> Inl e
      | Inr page \<Rightarrow> Inr \<lparr>pages = pages d @ [page], pageParams = pageParams d @ [param]\<rparr>)"

fun fetch_remaining ::
  "(int \<Rightarrow> js_error + 'p) \<Rightarrow> ('p \<Rightarrow> js_error + int option) \<Rightarrow> nat \<Rightarrow> 'p infinite_data
     \<Rightarrow> js_error + 'p infinite_data" where
  "fetch_remaining queryFn getNext 0 d = Inr d"
| "fetch_remaining queryFn getNext (Suc n) d =
     (case nextPageParam getNext d of
        Inl e \<Rightarrow> Inl e
      | Inr None \<Rightarrow> Inr d
      | Inr (Some param) \<Rightarrow>
          (case fetchPage queryFn d param of
             Inl e \<Rightarrow> Inl e
           | Inr d' \<Rightarrow> fetch_remaining queryFn getNext n d'))"

definition fetch_all ::
  "(int \<Rightarrow> js_error + 'p) \<Rightarrow> ('p \<Rightarrow> js_error + int option) \<Rightarrow> int \<Rightarrow> 'p infinite_data
     \<Rightarrow> js_error + 'p infinite_data" where
  "fetch_all queryFn getNext initialPageParam old =
     (let first = (case pageParams old of [] \<Rightarrow> initialPageParam | p # _ \<Rightarrow> p) in
      case fetchPage queryFn \<lparr>pages = [], pageParams = []\<rparr> first of
        Inl e \<Rightarrow> Inl e
      | Inr d \<Rightarrow> fetch_remaining queryFn getNext (length (pages old) - 1) d)"

definition fetch_next ::
  "(int \<Rightarrow> js_error + 'p) \<Rightarrow> ('p \<Rightarrow> js_error + int option) \<Rightarrow> int \<Rightarrow> 'p infinite_data
     \<Rightarrow> js_error + 'p infinite_data" where
  "fetch_next queryFn getNext initialPageParam old =
     (if pages old = [] then fetch_all queryFn getNext initialPageParam old
      else (case nextPageParam getNext old of
              Inl e \<Rightarrow> Inl e
            | Inr None \<Rightarrow> Inr old
            | Inr (Some param) \<Rightarrow> fetchPage queryFn old param))"

definition hasNextPage ::
  "('p \<Rightarrow> js_error + int option) \<Rightarrow> 'p infinite_data option \<Rightarrow> js_error + bool" where
  "hasNextPage getNext data_opt =
     (case data_opt of
        None \<Rightarrow> Inr False
      | Some d \<Rightarrow> (case nextPageParam getNext d of Inl e \<Rightarrow> Inl e | Inr p \<Rightarrow> Inr (p \<noteq> None)))"

section \<open>The job list (components/JobList.tsx)\<close>

text \<open>\<open>'ALL' | StatusType\<close>; the constructor for \<open>'ALL'\<close> is \<open>ALL_filter\<close>, since \<open>ALL\<close> is
  reserved syntax.\<close>

datatype FilterValue = ALL_filter | Status StatusType

datatype SortValue = newest | oldest | name_asc | name_desc

fun status_string :: "StatusType \<Rightarrow> string" where
  "status_string PENDING = ''PENDING''"
| "status_string RUNNING = ''RUNNING''"
| "status_string COMPLETED = ''COMPLETED''"
| "status_string FAILED = ''FAILED''"

fun filter_string :: "FilterValue \<Rightarrow> string" where
  "filter_string ALL_filter = ''ALL''"
| "filter_string (Status s) = status_string s"

fun sort_string :: "SortValue \<Rightarrow> string" where
  "sort_string newest = ''newest''"
| "sort_string oldest = ''oldest''"
| "sort_string name_asc = ''name_asc''"
| "sort_string name_desc = ''name_desc''"

text \<open>
  What the components take from outside the program: the typed reading of each JSON body,
  and \<open>page_of_url u\<close> for \<open>Number(new URL(u).searchParams.get('page'))\<close>, \<open>None\<close> when
  \<open>new URL(u)\<close> throws. (A \<open>next\<close> link of the paginator carries an integer page.)
\<close>

record world =
  as_page :: "json \<Rightarrow> Job PaginatedResponse"
  as_history :: "json \<Rightarrow> JobStatusEntry list"
  as_job :: "json \<Rightarrow> Job"
  page_of_url :: "string \<Rightarrow> int option"

definition initialPageParam :: int where
  "initialPageParam = 1"

definition getNextPageParam :: "world \<Rightarrow> 'a PaginatedResponse \<Rightarrow> js_error + int option" where
  "getNextPageParam w lastPage =
     (case next lastPage of
        None \<Rightarrow> Inr None
      | Some u \<Rightarrow>
          if u = [] then Inr None
          else (case page_of_url w u of None \<Rightarrow> Inl TypeError | Some n \<Rightarrow> Inr (Some n)))"

text \<open>The list with \<open>queryKey: ['jobs', filter, sort]\<close> and
  \<open>queryFn: ({ pageParam }) => fetchJobs({ pageParam, filter, sort })\<close>.\<close>

definition JobList_queryKey :: "FilterValue \<Rightarrow> SortValue \<Rightarrow> query_key" where
  "JobList_queryKey filter_value sort_value =
     [KStr ''jobs'', KStr (filter_string filter_value), KStr (sort_string sort_value)]"

definition JobList_queryFn ::
  "world \<Rightarrow> fetch \<Rightarrow> FilterValue \<Rightarrow> SortValue \<Rightarrow> int \<Rightarrow> js_error + Job PaginatedResponse" where
  "JobList_queryFn w http filter_value sort_value pageParam =
     fetchJobs (as_page w) http pageParam (filter_string filter_value) (sort_string sort_value)"

definition list_data :: "query_state option \<Rightarrow> Job PaginatedResponse infinite_data option" where
  "list_data q =
     (case q of
        None \<Rightarrow> None
      | Some st \<Rightarrow> (case state_data st of Some (Job_pages d) \<Rightarrow> Some d | _ \<Rightarrow> None))"

definition held :: "'p infinite_data option \<Rightarrow> 'p infinite_data" where
  "held d = (case d of None \<Rightarrow> \<lparr>pages = [], pageParams = []\<rparr> | Some x \<Rightarrow> x)"

definition map_outcome :: "('a \<Rightarrow> 'b) \<Rightarrow> 'e + 'a \<Rightarrow> 'e + 'b" where
  "map_outcome f r = (case r of Inl e \<Rightarrow> Inl e | Inr v \<Rightarrow> Inr (f v))"

text \<open>
  A read of the list under \<open>(filter, sort)\<close>: the query of that key is fetched when it has
  no data or is invalidated. \<open>https i\<close> is the network as the run after \<open>i\<close> failures
  finds it.
\<close>

definition JobList_read ::
  "world \<Rightarrow> defaultOptions \<Rightarrow> (nat \<Rightarrow> fetch) \<Rightarrow> FilterValue \<Rightarrow> SortValue \<Rightarrow> query_cache \<Rightarrow> query_cache" where
  "JobList_read w opts https filter_value sort_value cache =
     (let key = JobList_queryKey filter_value sort_value in
      if needs_fetch (cache key)
      then cache(key \<mapsto> settle (cache key)
             (map_outcome Job_pages (snd (retryer (query_retry opts) 0
                (\<lambda>i. fetch_all (JobList_queryFn w (https i) filter_value sort_value)
                        (getNextPageParam w) initialPageParam (held (list_data (cache key))))))))
      else cache)"

text \<open>\<open>fetchNextPage()\<close> of the Load More button.\<close>

definition JobList_fetchNextPage ::
  "world \<Rightarrow> defaultOptions \<Rightarrow> (nat \<Rightarrow> fetch) \<Rightarrow> FilterValue \<Rightarrow> SortValue \<Rightarrow> query_cache \<Rightarrow> query_cache" where
  "JobList_fetchNextPage w opts https filter_value sort_value cache =
     (let key = JobList_queryKey filter_value sort_value in
      cache(key \<mapsto> settle (cache key)
        (map_outcome Job_pages (snd (retryer (query_retry opts) 0
           (\<lambda>i. fetch_next (JobList_queryFn w (https i) filter_value sort_value)
                   (getNextPageParam w) initialPageParam (held (list_data (cache key)))))))))"

text \<open>
  What the list renders. Numbers that the program formats with \<open>toLocaleString\<close> are kept
  as numbers. \<open>fetching\<close> and \<open>isFetchingNextPage\<close> say whether a fetch of the query is in
  flight; \<open>isLoading\<close> is a fetch in flight with no data yet, and a query that does not
  exist yet is created and fetched by the read itself.
\<close>

datatype list_heading =
    Heading_status nat string nat
  | Heading_status_loaded nat string nat
  | Heading_all nat nat

datatype list_body =
    No_jobs_yet
  | No_jobs_with_status string
  | Cards "Job list"

datatype load_label = Loading_label | Remaining int

record load_more =
  load_more_disabled :: bool
  load_more_label :: load_label

datatype JobList_view =
    Loading_jobs
  | Failed_to_load string
  | No_jobs_yet_page
  | List_view list_heading list_body "load_more option"

definition flatMap_results :: "'a PaginatedResponse list \<Rightarrow> 'a list" where
  "flatMap_results ps = concat (map results ps)"

definition totalCount :: "'a PaginatedResponse list \<Rightarrow> nat" where
  "totalCount ps = (case ps of [] \<Rightarrow> 0 | p # _ \<Rightarrow> count p)"

definition filter_label :: "FilterValue \<Rightarrow> string" where
  "filter_label f = (case f of ALL_filter \<Rightarrow> ''undefined'' | Status s \<Rightarrow> STATUS_LABELS s)"

definition load_more_button ::
  "bool \<Rightarrow> bool \<Rightarrow> nat \<Rightarrow> nat \<Rightarrow> load_more option" where
  "load_more_button has_next isFetchingNextPage total_count loaded =
     (if has_next
      then Some \<lparr>load_more_disabled = isFetchingNextPage,
                 load_more_label = (if isFetchingNextPage then Loading_label
                                    else Remaining (int total_count - int loaded))\<rparr>
      else None)"

definition JobList ::
  "world \<Rightarrow> FilterValue \<Rightarrow> SortValue \<Rightarrow> query_cache \<Rightarrow> bool \<Rightarrow> bool \<Rightarrow> js_error + JobList_view" where
  "JobList w filter_value sort_value cache fetching isFetchingNextPage =
     (let q = cache (JobList_queryKey filter_value sort_value);
          d = list_data q;
          jobs = flatMap_results (pages (held d));
          total_count = totalCount (pages (held d));
          isLoading = (q = None \<or> (fetching \<and> d = None))
      in case hasNextPage (getNextPageParam w) d of
           Inl e \<Rightarrow> Inl e
         | Inr has_next \<Rightarrow>
             Inr (if isLoading then Loading_jobs
                  else (case (case q of None \<Rightarrow> None | Some st \<Rightarrow> state_error st) of
                          Some e \<Rightarrow> Failed_to_load (error_message e)
                        | None \<Rightarrow>
                            List_view
                              (if filter_value \<noteq> ALL_filter
                               then Heading_status (length jobs) (filter_label filter_value) total_count
                               else Heading_all (length jobs) total_count)
                              (if length jobs = 0
                               then (if filter_value = ALL_filter then No_jobs_yet
                                     else No_jobs_with_status (filter_label filter_value))
                               else Cards jobs)
                              (load_more_button has_next isFetchingNextPage total_count (length jobs)))))"

text \<open>
  A list query starts at the first page when it holds one page parameter for each page
  and the first of them, if there is one, is \<open>initialPageParam\<close>.
\<close>

definition starts_at_first :: "'p infinite_data \<Rightarrow> bool" where
  "starts_at_first d =
     (length (pageParams d) = length (pages d)
      \<and> (case pageParams d of [] \<Rightarrow> True | p # ps \<Rightarrow> p = initialPageParam))"

text \<open>
  The list with \<open>queryKey: ['jobs']\<close>, which applies the filter and the sort in memory to
  the pages it holds (``Apply filter then sort entirely in memory''). Its query key does
  not depend on the filter or the sort.
\<close>

definition JobList_in_memory_queryKey :: "FilterValue \<Rightarrow> SortValue \<Rightarrow> query_key" where
  "JobList_in_memory_queryKey filter_value sort_value = [KStr ''jobs'']"

text \<open>
  Its option \<open>queryFn: fetchJobs\<close> hands \<open>fetchJobs\<close> the query context of the library,
  which has a \<open>pageParam\<close> but neither \<open>filter\<close> nor \<open>sort\<close>: both are \<open>undefined\<close> in
  \<open>fetchJobs\<close>. \<open>URLSearchParams\<close> writes \<open>undefined\<close> as the text \<open>undefined\<close>, and
  since \<open>undefined !== 'ALL'\<close> the \<open>status\<close> parameter is set as well. The filter and the
  sort of the component are arguments of the read only to show that they play no part.
\<close>

definition JobList_in_memory_queryFn ::
  "world \<Rightarrow> fetch \<Rightarrow> int \<Rightarrow> js_error + Job PaginatedResponse" where
  "JobList_in_memory_queryFn w http pageParam =
     fetchJobs (as_page w) http pageParam ''undefined'' ''undefined''"

definition JobList_in_memory_read ::
  "world \<Rightarrow> defaultOptions \<Rightarrow> (nat \<Rightarrow> fetch) \<Rightarrow> FilterValue \<Rightarrow> SortValue \<Rightarrow> query_cache \<Rightarrow> query_cache" where
  "JobList_in_memory_read w opts https filter_value sort_value cache =
     (let key = JobList_in_memory_queryKey filter_value sort_value in
      if needs_fetch (cache key)
      then cache(key \<mapsto> settle (cache key)
             (map_outcome Job_pages (snd (retryer (query_retry opts) 0
                (\<lambda>i. fetch_all (JobList_in_memory_queryFn w (https i))
                        (getNextPageParam w) initialPageParam (held (list_data (cache key))))))))
      else cache)"


text \<open>
  The comparator of the in-memory sort. \<open>getTime s\<close> is \<open>new Date(s).getTime()\<close>, \<open>None\<close>
  for \<open>NaN\<close> (an invalid date); a difference with \<open>NaN\<close> is \<open>NaN\<close>. \<open>localeCompare\<close> is the
  platform's collation. The \<open>default\<close> branch of the \<open>switch\<close> is \<open>newest\<close>.
\<close>

definition time_difference :: "int option \<Rightarrow> int option \<Rightarrow> int option" where
  "time_difference a b =
     (case a of None \<Rightarrow> None | Some x \<Rightarrow> (case b of None \<Rightarrow> None | Some y \<Rightarrow> Some (x - y)))"

definition compare_jobs ::
  "(string \<Rightarrow> int option) \<Rightarrow> (js_string \<Rightarrow> js_string \<Rightarrow> int) \<Rightarrow> SortValue \<Rightarrow> Job \<Rightarrow> Job \<Rightarrow> int option" where
  "compare_jobs getTime localeCompare sort_value a b =
     (case sort_value of
        oldest \<Rightarrow> time_difference (getTime (created_at a)) (getTime (created_at b))
      | name_asc \<Rightarrow> Some (localeCompare (name a) (name b))
      | name_desc \<Rightarrow> Some (localeCompare (name b) (name a))
      | newest \<Rightarrow> time_difference (getTime (created_at b)) (getTime (created_at a)))"

text \<open>
  \<open>Array.prototype.sort\<close> with a comparator is a stable sort; a comparator result of
  \<open>NaN\<close> counts as \<open>0\<close>. For a consistent comparator every stable sort gives the same array,
  and the model is the stable insertion sort: an element goes in front of the first later
  element that it does not have to follow.
\<close>

definition goes_after :: "('a \<Rightarrow> 'a \<Rightarrow> int option) \<Rightarrow> 'a \<Rightarrow> 'a \<Rightarrow> bool" where
  "goes_after cmp x y = (case cmp x y of None \<Rightarrow> False | Some v \<Rightarrow> v > 0)"

fun sort_insert :: "('a \<Rightarrow> 'a \<Rightarrow> int option) \<Rightarrow> 'a \<Rightarrow> 'a list \<Rightarrow> 'a list" where
  "sort_insert cmp x [] = [x]"
| "sort_insert cmp x (y # ys) =
     (if goes_after cmp x y then y # sort_insert cmp x ys else x # y # ys)"

definition Array_sort :: "('a \<Rightarrow> 'a \<Rightarrow> int option) \<Rightarrow> 'a list \<Rightarrow> 'a list" where
  "Array_sort cmp xs = foldr (sort_insert cmp) xs []"

definition filtered_jobs :: "FilterValue \<Rightarrow> Job list \<Rightarrow> Job list" where
  "filtered_jobs filter_value jobs =
     (case filter_value of
        ALL_filter \<Rightarrow> jobs
      | Status s \<Rightarrow> filter (\<lambda>j. current_status j = Some s) jobs)"

definition JobList_in_memory ::
  "(string \<Rightarrow> int option) \<Rightarrow> (js_string \<Rightarrow> js_string \<Rightarrow> int) \<Rightarrow> world \<Rightarrow> FilterValue \<Rightarrow> SortValue
     \<Rightarrow> query_cache \<Rightarrow> bool \<Rightarrow> bool \<Rightarrow> js_error + JobList_view" where
  "JobList_in_memory getTime localeCompare w filter_value sort_value cache fetching isFetchingNextPage =
     (let q = cache (JobList_in_memory_queryKey filter_value sort_value);
          d = list_data q;
          jobs = flatMap_results (pages (held d));
          total_count = totalCount (pages (held d));
          isLoading = (q = None \<or> (fetching \<and> d = None))
      in case hasNextPage (getNextPageParam w) d of
           Inl e \<Rightarrow> Inl e
         | Inr has_next \<Rightarrow>
             Inr (if isLoading then Loading_jobs
                  else (case (case q of None \<Rightarrow> None | Some st \<Rightarrow> state_error st) of
                          Some e \<Rightarrow> Failed_to_load (error_message e)
                        | None \<Rightarrow>
                            if length jobs = 0 then No_jobs_yet_page
                            else
                              (let filtered = filtered_jobs filter_value jobs;
                                   sorted = Array_sort (compare_jobs getTime localeCompare sort_value) filtered
                               in List_view
                                    (if filter_value \<noteq> ALL_filter
                                     then Heading_status_loaded (length filtered)
                                            (filter_label filter_value) (length jobs)
                                     else Heading_all (length jobs) total_count)
                                    (if length sorted = 0
                                     then No_jobs_with_status (filter_label filter_value)
                                     else Cards sorted)
                                    (load_more_button has_next isFetchingNextPage total_count
                                       (length jobs))))))"

text \<open>
  The order the sort is to produce, in the words of the specification: \<open>newest\<close> by
  \<open>created_at\<close> descending, \<open>oldest\<close> ascending, \<open>name_asc\<close> and \<open>name_desc\<close> by name
  ascending and descending. \<open>may_precede a b\<close> says that \<open>a\<close> may stand before \<open>b\<close>; two
  jobs have the same key when each may stand before the other. \<open>in_order\<close> is the same
  read off the comparator.
\<close>

definition in_order :: "('a \<Rightarrow> 'a \<Rightarrow> int option) \<Rightarrow> 'a \<Rightarrow> 'a \<Rightarrow> bool" where
  "in_order cmp a b = (\<not> goes_after cmp a b)"

definition time_le :: "int option \<Rightarrow> int option \<Rightarrow> bool" where
  "time_le x y =
     (case x of None \<Rightarrow> False | Some tx \<Rightarrow> (case y of None \<Rightarrow> False | Some ty \<Rightarrow> tx \<le> ty))"

definition may_precede ::
  "(string \<Rightarrow> int option) \<Rightarrow> (js_string \<Rightarrow> js_string \<Rightarrow> int) \<Rightarrow> SortValue \<Rightarrow> Job \<Rightarrow> Job \<Rightarrow> bool" where
  "may_precede getTime localeCompare sort_value a b =
     (case sort_value of
        newest \<Rightarrow> time_le (getTime (created_at b)) (getTime (created_at a))
      | oldest \<Rightarrow> time_le (getTime (created_at a)) (getTime (created_at b))
      | name_asc \<Rightarrow> localeCompare (name a) (name b) \<le> 0
      | name_desc \<Rightarrow> localeCompare (name b) (name a) \<le> 0)"

definition same_key ::
  "(string \<Rightarrow> int option) \<Rightarrow> (js_string \<Rightarrow> js_string \<Rightarrow> int) \<Rightarrow> SortValue \<Rightarrow> Job \<Rightarrow> Job \<Rightarrow> bool" where
  "same_key getTime localeCompare sort_value a b =
     (may_precede getTime localeCompare sort_value a b
      \<and> may_precede getTime localeCompare sort_value b a)"

section \<open>Mutations and the history query\<close>

text \<open>
  \<open>mutation.mutate(variables)\<close>: the mutation function is run under the retryer with the
  mutation retry count; \<open>onSuccess\<close> runs when it resolved. Each function gives the state of
  the mutation afterwards with the changed state.
\<close>

definition settled_mutation :: "js_error + 'a \<Rightarrow> mutation_result" where
  "settled_mutation outcome =
     (case outcome of
        Inr v \<Rightarrow> \<lparr>isPending = False, mutation_error = None\<rparr>
      | Inl e \<Rightarrow> \<lparr>isPending = False, mutation_error = Some (error_message e)\<rparr>)"

definition CreateJobForm_onSuccess :: "form_state \<times> query_cache \<Rightarrow> form_state \<times> query_cache" where
  "CreateJobForm_onSuccess st =
     ((fst st)\<lparr>form_name := [], validationError := []\<rparr>, invalidateQueries [KStr ''jobs''] (snd st))"

definition CreateJobForm_mutation ::
  "world \<Rightarrow> defaultOptions \<Rightarrow> (nat \<Rightarrow> fetch) \<Rightarrow> CreateJobPayload \<Rightarrow> form_state \<times> query_cache
     \<Rightarrow> mutation_result \<times> form_state \<times> query_cache" where
  "CreateJobForm_mutation w opts https payload st =
     (let outcome = snd (retryer (mutation_retry opts) 0 (\<lambda>i. createJob (as_job w) (https i) payload))
      in (settled_mutation outcome,
          (case outcome of Inr job \<Rightarrow> CreateJobForm_onSuccess st | Inl e \<Rightarrow> st)))"

definition JobCard_onSuccess :: "query_cache \<Rightarrow> query_cache" where
  "JobCard_onSuccess cache = invalidateQueries [KStr ''jobs''] cache"

definition JobCard_updateMutation ::
  "world \<Rightarrow> defaultOptions \<Rightarrow> (nat \<Rightarrow> fetch) \<Rightarrow> Job \<Rightarrow> StatusType \<Rightarrow> query_cache
     \<Rightarrow> mutation_result \<times> query_cache" where
  "JobCard_updateMutation w opts https job new_status cache =
     (let outcome = snd (retryer (mutation_retry opts) 0
                      (\<lambda>i. updateJobStatus (as_job w) (https i) (id job) new_status))
      in (settled_mutation outcome,
          (case outcome of Inr j \<Rightarrow> JobCard_onSuccess cache | Inl e \<Rightarrow> cache)))"

definition JobCard_deleteMutation ::
  "defaultOptions \<Rightarrow> (nat \<Rightarrow> fetch) \<Rightarrow> Job \<Rightarrow> query_cache \<Rightarrow> mutation_result \<times> query_cache" where
  "JobCard_deleteMutation opts https job cache =
     (let outcome = snd (retryer (mutation_retry opts) 0 (\<lambda>i. deleteJob (https i) (id job)))
      in (settled_mutation outcome,
          (case outcome of Inr u \<Rightarrow> JobCard_onSuccess cache | Inl e \<Rightarrow> cache)))"

text \<open>
  A render of the card reads its history query. The query function runs only for an
  enabled query that has no data or is invalidated; the first component of the result is
  the number of runs of \<open>fetchJobHistory\<close>, each of which sends one request.
\<close>

definition JobCard_history_read ::
  "world \<Rightarrow> defaultOptions \<Rightarrow> (nat \<Rightarrow> fetch) \<Rightarrow> Job \<Rightarrow> bool \<Rightarrow> query_cache \<Rightarrow> nat \<times> query_cache" where
  "JobCard_history_read w opts https job showHistory cache =
     (let options = JobCard_history_query job showHistory;
          key = history_queryKey options
      in if enabled options \<and> needs_fetch (cache key)
         then (let run = retryer (query_retry opts) 0
                           (\<lambda>i. fetchJobHistory (as_history w) (https i) (history_job options))
               in (fst run, cache(key \<mapsto> settle (cache key) (map_outcome Job_history (snd run)))))
         else (0, cache))"

definition JobCard_history_result :: "Job \<Rightarrow> bool \<Rightarrow> query_cache \<Rightarrow> bool \<Rightarrow> history_result" where
  "JobCard_history_result job showHistory cache fetching =
     (let data_opt =
            (case cache (history_queryKey (JobCard_history_query job showHistory)) of
               None \<Rightarrow> None
             | Some st \<Rightarrow> (case state_data st of Some (Job_history h) \<Rightarrow> Some h | _ \<Rightarrow> None))
      in \<lparr>history_data = data_opt, historyLoading = (fetching \<and> data_opt = None)\<rparr>)"

text \<open>
  The states of the cache that the program can bring about, from the empty cache, by
  reads of the keyed list, Load More, renders of a card and mutations, whatever the
  network does.
\<close>

inductive reachable :: "world \<Rightarrow> defaultOptions \<Rightarrow> query_cache \<Rightarrow> bool" for w opts where
  empty_cache: "reachable w opts Map.empty"
| list_read: "reachable w opts c \<Longrightarrow> reachable w opts (JobList_read w opts https f s c)"
| load_more: "reachable w opts c \<Longrightarrow> reachable w opts (JobList_fetchNextPage w opts https f s c)"
| history_read:
    "reachable w opts c \<Longrightarrow> reachable w opts (snd (JobCard_history_read w opts https job sh c))"
| created:
    "reachable w opts c \<Longrightarrow>
       reachable w opts (snd (snd (CreateJobForm_mutation w opts https payload (form, c))))"
| updated:
    "reachable w opts c \<Longrightarrow> reachable w opts (snd (JobCard_updateMutation w opts https job st c))"
| deleted:
    "reachable w opts c \<Longrightarrow> reachable w opts (snd (JobCard_deleteMutation opts https job c))"

section \<open>A small backend for the evaluations\<close>

text \<open>
  The reading of well-shaped reply bodies at the types of \<open>types/index.ts\<close>, and a backend
  with three jobs that serves pages of two: job 1 is \<open>RUNNING\<close>, jobs 2 and 3 are
  \<open>PENDING\<close>, and jobs 2 and 3 were created at the same instant. It accepts the
  update of job 1 to \<open>FAILED\<close>. Any other request is answered with 404 and a \<open>detail\<close>.
\<close>

definition member_or_null :: "json \<Rightarrow> string \<Rightarrow> json" where
  "member_or_null b k = (case optional_member b k of None \<Rightarrow> JNull | Some v \<Rightarrow> v)"

fun json_string :: "json \<Rightarrow> string" where
  "json_string (JStr s) = s"
| "json_string _ = []"

fun json_int :: "json \<Rightarrow> int" where
  "json_int (JNum n) = n"
| "json_int _ = 0"

fun json_list :: "json \<Rightarrow> json list" where
  "json_list (JArr xs) = xs"
| "json_list _ = []"

fun json_link :: "json \<Rightarrow> string option" where
  "json_link (JStr s) = Some s"
| "json_link _ = None"

definition json_status :: "json \<Rightarrow> StatusType option" where
  "json_status j =
     (if j = JStr ''PENDING'' then Some PENDING
      else if j = JStr ''RUNNING'' then Some RUNNING
      else if j = JStr ''COMPLETED'' then Some COMPLETED
      else if j = JStr ''FAILED'' then Some FAILED
      else None)"

definition code_units :: "string \<Rightarrow> js_string" where
  "code_units s = map (\<lambda>c. of_nat (of_char c)) s"

definition read_Job :: "json \<Rightarrow> Job" where
  "read_Job j =
     \<lparr>id = json_int (member_or_null j ''id''),
      name = code_units (json_string (member_or_null j ''name'')),
      created_at = json_string (member_or_null j ''created_at''),
      updated_at = json_string (member_or_null j ''updated_at''),
      current_status = json_status (member_or_null j ''current_status'')\<rparr>"

definition read_page :: "json \<Rightarrow> Job PaginatedResponse" where
  "read_page j =
     \<lparr>count = nat (json_int (member_or_null j ''count'')),
      next = json_link (member_or_null j ''next''),
      previous = json_link (member_or_null j ''previous''),
      results = map read_Job (json_list (member_or_null j ''results''))\<rparr>"

definition read_entry :: "json \<Rightarrow> JobStatusEntry" where
  "read_entry j =
     \<lparr>entry_id = json_int (member_or_null j ''id''),
      status_type = (case json_status (member_or_null j ''status_type'') of
                       None \<Rightarrow> PENDING | Some s \<Rightarrow> s),
      timestamp = json_string (member_or_null j ''timestamp'')\<rparr>"

definition small_world :: world where
  "small_world =
     \<lparr>as_page = read_page,
      as_history = (\<lambda>j. map read_entry (json_list j)),
      as_job = read_Job,
      page_of_url =
        (\<lambda>u. if u = ''http://backend:8000/api/jobs/?page=2&sort=newest'' then Some 2
             else if u = ''http://backend:8000/api/jobs/?page=2&sort=undefined&status=undefined''
             then Some 2
             else None)\<rparr>"

definition job_json :: "int \<Rightarrow> string \<Rightarrow> string \<Rightarrow> string \<Rightarrow> json" where
  "job_json i n t st =
     JObj [(''id'', JNum i), (''name'', JStr n), (''created_at'', JStr t), (''updated_at'', JStr t),
           (''current_status'', JStr st)]"

definition job1 :: Job where
  "job1 = \<lparr>id = 1, name = code_units ''A'', created_at = ''2024-01-01T00:00:00Z'',
           updated_at = ''2024-01-01T00:00:00Z'', current_status = Some RUNNING\<rparr>"

definition job2 :: Job where
  "job2 = \<lparr>id = 2, name = code_units ''B'', created_at = ''2024-01-02T00:00:00Z'',
           updated_at = ''2024-01-02T00:00:00Z'', current_status = Some PENDING\<rparr>"

definition job3 :: Job where
  "job3 = \<lparr>id = 3, name = code_units ''B'', created_at = ''2024-01-02T00:00:00Z'',
           updated_at = ''2024-01-02T00:00:00Z'', current_status = Some PENDING\<rparr>"

definition page1_json :: json where
  "page1_json =
     JObj [(''count'', JNum 3),
           (''next'', JStr ''http://backend:8000/api/jobs/?page=2&sort=newest''),
           (''previous'', JNull),
           (''results'', JArr [job_json 3 ''B'' ''2024-01-02T00:00:00Z'' ''PENDING'',
                               job_json 2 ''B'' ''2024-01-02T00:00:00Z'' ''PENDING''])]"

definition page2_json :: json where
  "page2_json =
     JObj [(''count'', JNum 3),
           (''next'', JNull),
           (''previous'', JStr ''http://backend:8000/api/jobs/?sort=newest''),
           (''results'', JArr [job_json 1 ''A'' ''2024-01-01T00:00:00Z'' ''RUNNING''])]"

definition running_json :: json where
  "running_json =
     JObj [(''count'', JNum 1), (''next'', JNull), (''previous'', JNull),
           (''results'', JArr [job_json 1 ''A'' ''2024-01-01T00:00:00Z'' ''RUNNING''])]"

definition not_found :: Response where
  "not_found = \<lparr>status = 404, json_body = Some (JObj [(''detail'', JStr ''Not found.'')])\<rparr>"

definition small_backend :: fetch where
  "small_backend req =
     (if req_method req = GET \<and> path req = ''/api/jobs/''
      then (if params req = [(''page'', ''1''), (''sort'', ''newest'')]
            then Some \<lparr>status = 200, json_body = Some page1_json\<rparr>
            else if params req = [(''page'', ''2''), (''sort'', ''newest'')]
            then Some \<lparr>status = 200, json_body = Some page2_json\<rparr>
            else if params req = [(''page'', ''1''), (''sort'', ''newest''), (''status'', ''RUNNING'')]
            then Some \<lparr>status = 200, json_body = Some running_json\<rparr>
            else Some not_found)
      else if req_method req = PATCH \<and> path req = ''/api/jobs/1/''
                \<and> body req = Some (Update_body FAILED)
      then Some \<lparr>status = 200,
                 json_body = Some (job_json 1 ''A'' ''2024-01-01T00:00:00Z'' ''FAILED'')\<rparr>
      else Some not_found)"

definition no_mutation :: mutation_result where
  "no_mutation = \<lparr>isPending = False, mutation_error = None\<rparr>"

text \<open>A collation (code units compared from the left) and the clock for the timestamps
  of the three jobs.\<close>

fun compare_units :: "js_string \<Rightarrow> js_string \<Rightarrow> int" where
  "compare_units [] [] = 0"
| "compare_units [] (y # ys) = -1"
| "compare_units (x # xs) [] = 1"
| "compare_units (x # xs) (y # ys) =
     (if x < y then -1 else if y < x then 1 else compare_units xs ys)"

definition small_getTime :: "string \<Rightarrow> int option" where
  "small_getTime s =
     (if s = ''2024-01-01T00:00:00Z'' then Some 1704067200000
      else if s = ''2024-01-02T00:00:00Z'' then Some 1704153600000
      else None)"

text \<open>The same network at every run of a query or mutation function.\<close>

definition every_run :: "fetch \<Rightarrow> nat \<Rightarrow> fetch" where
  "every_run h i = h"

text \<open>
  A backend for the in-memory list: it serves the same three jobs newest first in pages
  of two and takes no notice of the \<open>sort\<close> and \<open>status\<close> parameters. Its \<open>next\<close> link
  repeats the parameters of the request.
\<close>

definition plain_page1_json :: json where
  "plain_page1_json =
     JObj [(''count'', JNum 3),
           (''next'', JStr ''http://backend:8000/api/jobs/?page=2&sort=undefined&status=undefined''),
           (''previous'', JNull),
           (''results'', JArr [job_json 3 ''B'' ''2024-01-02T00:00:00Z'' ''PENDING'',
                               job_json 2 ''B'' ''2024-01-02T00:00:00Z'' ''PENDING''])]"

definition plain_page2_json :: json where
  "plain_page2_json =
     JObj [(''count'', JNum 3),
           (''next'', JNull),
           (''previous'', JStr ''http://backend:8000/api/jobs/?sort=undefined&status=undefined''),
           (''results'', JArr [job_json 1 ''A'' ''2024-01-01T00:00:00Z'' ''RUNNING''])]"

definition plain_backend :: fetch where
  "plain_backend req =
     (if req_method req = GET \<and> path req = ''/api/jobs/''
      then (if map_of (params req) ''page'' = Some ''1''
            then Some \<lparr>status = 200, json_body = Some plain_page1_json\<rparr>
            else if map_of (params req) ''page'' = Some ''2''
            then Some \<lparr>status = 200, json_body = Some plain_page2_json\<rparr>
            else Some not_found)
      else Some not_found)"

text \<open>The cache before anything was read.\<close>

definition no_queries :: query_cache where
  "no_queries = Map.empty"

text \<open>The cache of the keyed list after its first read under \<open>(ALL, newest)\<close>.\<close>

definition keyed_first_page :: query_cache where
  "keyed_first_page =
     [JobList_queryKey ALL_filter newest \<mapsto>
        \<lparr>state_data = Some (Job_pages \<lparr>pages = [read_page page1_json], pageParams = [1]\<rparr>),
         state_error = None, isInvalidated = False\<rparr>]"

section \<open>Properties of the job card\<close>

lemma ALL_STATUSES_complete: "set ALL_STATUSES = UNIV"
proof -
  have "s \<in> set ALL_STATUSES" for s
    by (cases s) (simp_all add: ALL_STATUSES_def)
  then show ?thesis by auto
qed

text \<open>
  Claim C10. For every job, also one whose \<open>current_status\<close> is null, the card is a
  value (rendering reads nothing that is absent): the status badge is there exactly when
  \<open>current_status\<close> is not null, and the change-status dropdown offers exactly the statuses
  of \<open>ALL_STATUSES\<close> other than the current one, in the order of \<open>ALL_STATUSES\<close>: all four
  for a null status, and never the current status itself.
\<close>

theorem JobCard_badge_and_options:
  "(status_badge (JobCard job sh h um dm) \<noteq> None \<longleftrightarrow> current_status job \<noteq> None)
   \<and> map option_value (select_options (JobCard job sh h um dm))
       = filter (\<lambda>s. Some s \<noteq> current_status job) ALL_STATUSES
   \<and> set (map option_value (select_options (JobCard job sh h um dm)))
       = {s. Some s \<noteq> current_status job}
   \<and> (current_status job = None \<longrightarrow>
        map option_value (select_options (JobCard job sh h um dm))
          = [PENDING, RUNNING, COMPLETED, FAILED])
   \<and> (\<forall>s. current_status job = Some s \<longrightarrow>
        s \<notin> set (map option_value (select_options (JobCard job sh h um dm))))"
proof -
  have opts: "map option_value (select_options (JobCard job sh h um dm))
                = filter (\<lambda>s. Some s \<noteq> current_status job) ALL_STATUSES"
    by (simp add: JobCard_def Let_def comp_def)
  have badge: "status_badge (JobCard job sh h um dm) \<noteq> None \<longleftrightarrow> current_status job \<noteq> None"
    by (simp add: JobCard_def Let_def split: option.splits)
  have "set (filter (\<lambda>s. Some s \<noteq> current_status job) ALL_STATUSES)
          = {s. Some s \<noteq> current_status job}"
    using ALL_STATUSES_complete by auto
  moreover have "current_status job = None \<Longrightarrow>
      filter (\<lambda>s. Some s \<noteq> current_status job) ALL_STATUSES
        = [PENDING, RUNNING, COMPLETED, FAILED]"
    by (simp add: ALL_STATUSES_def)
  ultimately show ?thesis
    using opts badge by auto
qed

theorem JobCard_badge_and_options_witness:
  "map option_value (select_options
      (JobCard \<lparr>id = 1, name = [0x46], created_at = ''2024-01-01T00:00:00Z'',
                updated_at = ''2024-01-01T00:00:00Z'', current_status = None\<rparr>
         False \<lparr>history_data = None, historyLoading = False\<rparr>
         \<lparr>isPending = False, mutation_error = None\<rparr>
         \<lparr>isPending = False, mutation_error = None\<rparr>))
     = [PENDING, RUNNING, COMPLETED, FAILED]
   \<and> PENDING \<notin> set (map option_value (select_options
      (JobCard \<lparr>id = 1, name = [0x46], created_at = ''2024-01-01T00:00:00Z'',
                updated_at = ''2024-01-01T00:00:00Z'', current_status = Some PENDING\<rparr>
         False \<lparr>history_data = None, historyLoading = False\<rparr>
         \<lparr>isPending = False, mutation_error = None\<rparr>
         \<lparr>isPending = False, mutation_error = None\<rparr>)))"
  using JobCard_badge_and_options
    [of "\<lparr>id = 1, name = [0x46], created_at = ''2024-01-01T00:00:00Z'',
          updated_at = ''2024-01-01T00:00:00Z'', current_status = None\<rparr>"
        False "\<lparr>history_data = None, historyLoading = False\<rparr>"
        "\<lparr>isPending = False, mutation_error = None\<rparr>"
        "\<lparr>isPending = False, mutation_error = None\<rparr>"]
    JobCard_badge_and_options
    [of "\<lparr>id = 1, name = [0x46], created_at = ''2024-01-01T00:00:00Z'',
          updated_at = ''2024-01-01T00:00:00Z'', current_status = Some PENDING\<rparr>"
        False "\<lparr>history_data = None, historyLoading = False\<rparr>"
        "\<lparr>isPending = False, mutation_error = None\<rparr>"
        "\<lparr>isPending = False, mutation_error = None\<rparr>"]
  by (simp add: ALL_STATUSES_def)

section \<open>Properties of the create-job form\<close>

lemma trim_Nil_iff: "trim s = [] \<longleftrightarrow> (\<forall>u \<in> set s. is_white_space u)"
proof -
  have "trim s = [] \<longleftrightarrow> (\<forall>u \<in> set (dropWhile is_white_space s). is_white_space u)"
    by (simp add: trim_def)
  also have "\<dots> \<longleftrightarrow> dropWhile is_white_space s = []"
    by (metis hd_dropWhile list.set_sel(1) empty_iff list.set(1))
  finally show ?thesis by simp
qed

text \<open>
  Claim C3. A submit with a name that is empty or all white space (its trim is empty)
  sets the validation error ``Job name cannot be empty'', changes nothing else and makes
  no call of the create mutation; a submit with any other name clears the validation
  error and calls the mutation once, with the trimmed name.
\<close>

theorem handleSubmit_validates_name:
  "(trim (form_name s) = [] \<longleftrightarrow> (\<forall>u \<in> set (form_name s). is_white_space u))
   \<and> (trim (form_name s) = [] \<longrightarrow>
        handleSubmit s = s\<lparr>validationError := ''Job name cannot be empty''\<rparr>
        \<and> mutate_calls (handleSubmit s) = mutate_calls s)
   \<and> (trim (form_name s) \<noteq> [] \<longrightarrow>
        validationError (handleSubmit s) = []
        \<and> form_name (handleSubmit s) = form_name s
        \<and> mutate_calls (handleSubmit s)
            = mutate_calls s @ [\<lparr>payload_name = trim (form_name s)\<rparr>])"
  using trim_Nil_iff [of "form_name s"] by (simp add: handleSubmit_def)

theorem handleSubmit_validates_name_witness:
  "handleSubmit \<lparr>form_name = [0x20, 0x09, 0x20], validationError = [], mutate_calls = []\<rparr>
     = \<lparr>form_name = [0x20, 0x09, 0x20], validationError = ''Job name cannot be empty'',
        mutate_calls = []\<rparr>
   \<and> mutate_calls (handleSubmit \<lparr>form_name = [0x20, 0x41, 0x20, 0x42, 0x20],
                                  validationError = ''Job name cannot be empty'', mutate_calls = []\<rparr>)
     = [\<lparr>payload_name = [0x41, 0x20, 0x42]\<rparr>]
   \<and> validationError (handleSubmit \<lparr>form_name = [0x20, 0x41, 0x20, 0x42, 0x20],
                                  validationError = ''Job name cannot be empty'', mutate_calls = []\<rparr>)
     = []"
  using handleSubmit_validates_name
    [of "\<lparr>form_name = [0x20, 0x09, 0x20], validationError = [], mutate_calls = []\<rparr>"]
    handleSubmit_validates_name
    [of "\<lparr>form_name = [0x20, 0x41, 0x20, 0x42, 0x20],
          validationError = ''Job name cannot be empty'', mutate_calls = []\<rparr>"]
  by (simp add: trim_def is_white_space_def)

section \<open>Properties of the API layer\<close>

lemma failure_message_error:
  "json_body res = Some b \<Longrightarrow> optional_member b ''error'' = Some v \<Longrightarrow> v \<noteq> JNull
     \<Longrightarrow> failure_message generic res = ToString v"
  by (simp add: failure_message_def coalesce_def nullish_def)

lemma failure_message_detail:
  "json_body res = Some b \<Longrightarrow> nullish (optional_member b ''error'')
     \<Longrightarrow> optional_member b ''detail'' = Some v \<Longrightarrow> v \<noteq> JNull
     \<Longrightarrow> failure_message generic res = ToString v"
  by (simp add: failure_message_def coalesce_def nullish_def)

lemma failure_message_generic:
  "json_body res = None
     \<or> (\<exists>b. json_body res = Some b \<and> nullish (optional_member b ''error'')
              \<and> nullish (optional_member b ''detail''))
     \<Longrightarrow> failure_message generic res = generic @ String_nat (status res)"
  by (auto simp: failure_message_def coalesce_def nullish_def)

text \<open>
  Claim C8, as stated, fails: a 2xx response whose body is not JSON makes the promise of
  \<open>handleResponse\<close> reject, with the \<open>SyntaxError\<close> of \<open>res.json()\<close>.
\<close>

theorem handleResponse_rejects_2xx_without_json:
  "ok \<lparr>status = 200, json_body = None\<rparr>
   \<and> handleResponse ToString \<lparr>status = 200, json_body = None\<rparr> = Inl SyntaxError"
  by (simp add: ok_def handleResponse_def)

text \<open>
  Claim C8, amended. On a non-2xx response the promise rejects with an \<open>Error\<close> whose
  message is \<open>body.error\<close> when that is neither missing nor null, else \<open>body.detail\<close> when
  that is neither missing nor null, else the generic text ending in the status code. On a
  2xx response \<open>handleResponse\<close> resolves with the parsed body when the body is JSON and
  rejects with the parse error when it is not, so it rejects exactly when the response is
  non-2xx or its body is not JSON; \<open>deleteJob\<close> reads no body of a 2xx response and
  rejects exactly when the response is non-2xx.
\<close>

theorem handleResponse_outcome:
  "(\<not> ok res \<longrightarrow>
      handleResponse cast res = Inl (Error (failure_message ''Request failed with status '' res)))
   \<and> (ok res \<longrightarrow>
        handleResponse cast res
          = (case json_body res of None \<Rightarrow> Inl SyntaxError | Some b \<Rightarrow> Inr (cast b)))
   \<and> ((\<exists>e. handleResponse cast res = Inl e) \<longleftrightarrow> \<not> ok res \<or> json_body res = None)
   \<and> (\<forall>b v. json_body res = Some b \<and> optional_member b ''error'' = Some v \<and> v \<noteq> JNull
          \<longrightarrow> failure_message generic res = ToString v)
   \<and> (\<forall>b v. json_body res = Some b \<and> nullish (optional_member b ''error'')
            \<and> optional_member b ''detail'' = Some v \<and> v \<noteq> JNull
          \<longrightarrow> failure_message generic res = ToString v)
   \<and> (json_body res = None
        \<or> (\<exists>b. json_body res = Some b \<and> nullish (optional_member b ''error'')
                 \<and> nullish (optional_member b ''detail''))
        \<longrightarrow> failure_message generic res = generic @ String_nat (status res))
   \<and> (http \<lparr>req_method = DELETE, path = BASE @ ''/jobs/'' @ String_int job_id @ ''/'', params = [],
              body = None\<rparr> = Some res
        \<longrightarrow> deleteJob http job_id
              = (if ok res then Inr ()
                 else Inl (Error (failure_message ''Delete failed with status '' res))))"
proof -
  have rejects: "(\<exists>e. handleResponse cast res = Inl e) \<longleftrightarrow> \<not> ok res \<or> json_body res = None"
    by (auto simp: handleResponse_def split: option.splits)
  have del: "http \<lparr>req_method = DELETE, path = BASE @ ''/jobs/'' @ String_int job_id @ ''/'', params = [],
              body = None\<rparr> = Some res
        \<Longrightarrow> deleteJob http job_id
              = (if ok res then Inr ()
                 else Inl (Error (failure_message ''Delete failed with status '' res)))"
    by (simp add: deleteJob_def)
  have non2xx: "\<not> ok res \<Longrightarrow>
      handleResponse cast res = Inl (Error (failure_message ''Request failed with status '' res))"
    by (simp add: handleResponse_def)
  have is2xx: "ok res \<Longrightarrow>
        handleResponse cast res
          = (case json_body res of None \<Rightarrow> Inl SyntaxError | Some b \<Rightarrow> Inr (cast b))"
    by (simp add: handleResponse_def)
  show ?thesis
    using rejects del non2xx is2xx failure_message_error [of res _ _ generic]
      failure_message_detail [of res _ _ generic] failure_message_generic [of res generic]
    by blast
qed

theorem handleResponse_outcome_witness:
  "handleResponse ToString not_found = Inl (Error ''Not found.'')
   \<and> failure_message ''Request failed with status '' \<lparr>status = 500, json_body = None\<rparr>
       = ''Request failed with status 500''
   \<and> deleteJob small_backend 7 = Inl (Error ''Not found.'')"
proof -
  have bad: "\<not> ok not_found"
    by (simp add: ok_def not_found_def)
  have sent: "small_backend \<lparr>req_method = DELETE, path = BASE @ ''/jobs/'' @ String_int 7 @ ''/'',
                params = [], body = None\<rparr> = Some not_found"
    by (simp add: small_backend_def)
  have msg: "failure_message generic not_found = ''Not found.''" for generic
    using handleResponse_outcome [of not_found ToString generic small_backend 7]
    by (simp add: not_found_def nullish_def)
  have five: "String_nat 500 = ''500''"
    by (simp add: String_nat.simps digit_char_def)
  show ?thesis
    using handleResponse_outcome [of not_found ToString "''Request failed with status ''" small_backend 7]
      handleResponse_outcome [of "\<lparr>status = 500, json_body = None\<rparr>" ToString
        "''Request failed with status ''" small_backend 7]
      bad sent msg five
    by simp
qed

section \<open>Evaluating the small backend\<close>

lemma retryer_Inr: "fn k = Inr v \<Longrightarrow> retryer r k fn = (Suc k, Inr v)"
  by (subst retryer.simps) simp

lemma retryer_last: "fn k = Inl e \<Longrightarrow> \<not> k < r \<Longrightarrow> retryer r k fn = (Suc k, Inl e)"
  by (subst retryer.simps) simp

lemma retryer_again: "fn k = Inl e \<Longrightarrow> k < r \<Longrightarrow> retryer r k fn = retryer r (Suc k) fn"
  by (subst retryer.simps) simp

lemma read_page1:
  "read_page page1_json
     = \<lparr>count = 3, next = Some ''http://backend:8000/api/jobs/?page=2&sort=newest'',
        previous = None, results = [job3, job2]\<rparr>"
  by (simp add: read_page_def page1_json_def member_or_null_def read_Job_def job_json_def
      json_status_def job3_def job2_def)

lemma read_page2:
  "read_page page2_json
     = \<lparr>count = 3, next = None, previous = Some ''http://backend:8000/api/jobs/?sort=newest'',
        results = [job1]\<rparr>"
  by (simp add: read_page_def page2_json_def member_or_null_def read_Job_def job_json_def
      json_status_def job1_def)

lemma read_running:
  "read_page running_json = \<lparr>count = 1, next = None, previous = None, results = [job1]\<rparr>"
  by (simp add: read_page_def running_json_def member_or_null_def read_Job_def job_json_def
      json_status_def job1_def)

lemma history_of_missing_job:
  "fetchJobHistory (as_history small_world) small_backend 1 = Inl (Error ''Not found.'')"
  by (simp add: fetchJobHistory_def small_backend_def BASE_def String_int_def String_nat.simps
      digit_char_def handleResponse_def not_found_def ok_def failure_message_def coalesce_def
      nullish_def)

lemma running_first_page:
  "JobList_queryFn small_world small_backend (Status RUNNING) newest 1
     = Inr (read_page running_json)"
  by (simp add: JobList_queryFn_def fetchJobs_def small_backend_def BASE_def String_int_def
      String_nat.simps digit_char_def handleResponse_def ok_def small_world_def)

lemma read_running_list:
  "JobList_read small_world queryClient (every_run small_backend) (Status RUNNING) newest Map.empty
     = [JobList_queryKey (Status RUNNING) newest \<mapsto>
          \<lparr>state_data = Some (Job_pages \<lparr>pages = [read_page running_json], pageParams = [1]\<rparr>),
           state_error = None, isInvalidated = False\<rparr>]"
  by (simp add: JobList_read_def needs_fetch_def every_run_def fetch_all_def list_data_def held_def
      initialPageParam_def fetchPage_def running_first_page retryer_Inr settle_def map_outcome_def)

lemma read_missing_history:
  "JobCard_history_read small_world queryClient (every_run small_backend) job1 True Map.empty
     = (2, [[KStr ''jobs'', KNum 1, KStr ''history''] \<mapsto>
              \<lparr>state_data = None, state_error = Some (Error ''Not found.''),
               isInvalidated = False\<rparr>])"
  by (simp add: JobCard_history_read_def Let_def JobCard_history_query_def needs_fetch_def job1_def
      every_run_def history_of_missing_job query_retry_def queryClient_def
      retryer_again [where e = "Error ''Not found.''"]
      retryer_last [where e = "Error ''Not found.''"] settle_def map_outcome_def)

section \<open>Properties of the history panel\<close>



text \<open>
  Claim C7, the code at the failing input. The history request of a job that the backend
  does not know fails with 404 at both runs (the one retry of \<open>retry: 1\<close>), and the query
  ends with the error ``Not found.''. The card, which reads only \<open>data\<close> and \<open>isLoading\<close>
  of this query, then shows ``No status changes yet'' in the open panel and no error.
\<close>

theorem history_failure_shows_no_error:
  "JobCard_history_read small_world queryClient (every_run small_backend) job1 True Map.empty
     = (2, [[KStr ''jobs'', KNum 1, KStr ''history''] \<mapsto>
              \<lparr>state_data = None, state_error = Some (Error ''Not found.''),
               isInvalidated = False\<rparr>])
   \<and> JobCard job1 True
        (JobCard_history_result job1 True
           (snd (JobCard_history_read small_world queryClient (every_run small_backend) job1 True
                   Map.empty)) False)
        no_mutation no_mutation
     = \<lparr>card_name = name job1,
        status_badge = Some \<lparr>badge_class = ''bg-blue-100   text-blue-800'', badge_label = ''Running''\<rparr>,
        select_disabled = False,
        select_options = [\<lparr>option_value = PENDING, option_label = ''Pending''\<rparr>,
                          \<lparr>option_value = COMPLETED, option_label = ''Completed''\<rparr>,
                          \<lparr>option_value = FAILED, option_label = ''Failed''\<rparr>],
        history_button = ''Hide History'',
        delete_disabled = False,
        delete_button = ''Delete'',
        update_failed = None,
        delete_failed = None,
        panel = Some No_status_changes_yet\<rparr>"
  unfolding read_missing_history
  by (simp add: JobCard_def JobCard_history_result_def JobCard_history_query_def job1_def
      no_mutation_def ALL_STATUSES_def history_panel_view_def)

section \<open>Properties of the in-memory sort\<close>

lemma mset_sort_insert: "mset (sort_insert cmp x ys) = add_mset x (mset ys)"
  by (induction ys) auto

lemma mset_Array_sort: "mset (Array_sort cmp xs) = mset xs"
  unfolding Array_sort_def by (induction xs) (auto simp: mset_sort_insert)

lemma set_sort_insert: "set (sort_insert cmp x ys) = insert x (set ys)"
  by (induction ys) auto

lemma set_Array_sort: "set (Array_sort cmp xs) = set xs"
  unfolding Array_sort_def by (induction xs) (auto simp: set_sort_insert)

lemma sorted_sort_insert:
  assumes total: "\<And>a b. a \<in> A \<Longrightarrow> b \<in> A \<Longrightarrow> in_order cmp a b \<or> in_order cmp b a"
    and trans: "\<And>a b c. a \<in> A \<Longrightarrow> b \<in> A \<Longrightarrow> c \<in> A \<Longrightarrow> in_order cmp a b \<Longrightarrow> in_order cmp b c
                  \<Longrightarrow> in_order cmp a c"
    and "x \<in> A" "set ys \<subseteq> A" "sorted_wrt (in_order cmp) ys"
  shows "sorted_wrt (in_order cmp) (sort_insert cmp x ys)"
  using assms(3-)
proof (induction ys)
  case Nil
  then show ?case by simp
next
  case (Cons y ys)
  show ?case
  proof (cases "goes_after cmp x y")
    case True
    then have "in_order cmp y x"
      using total [of x y] Cons.prems by (auto simp: in_order_def)
    with True Cons show ?thesis
      by (auto simp: set_sort_insert)
  next
    case False
    then have xy: "in_order cmp x y" by (simp add: in_order_def)
    have "in_order cmp x z" if "z \<in> set ys" for z
      using trans [of x y z] xy that Cons.prems by auto
    with False xy Cons.prems show ?thesis by auto
  qed
qed

lemma sorted_Array_sort:
  assumes total: "\<And>a b. a \<in> set xs \<Longrightarrow> b \<in> set xs \<Longrightarrow> in_order cmp a b \<or> in_order cmp b a"
    and trans: "\<And>a b c. a \<in> set xs \<Longrightarrow> b \<in> set xs \<Longrightarrow> c \<in> set xs \<Longrightarrow> in_order cmp a b
                  \<Longrightarrow> in_order cmp b c \<Longrightarrow> in_order cmp a c"
  shows "sorted_wrt (in_order cmp) (Array_sort cmp xs)"
proof -
  have "set ys \<subseteq> set xs \<Longrightarrow> sorted_wrt (in_order cmp) (foldr (sort_insert cmp) ys [])" for ys
  proof (induction ys)
    case Nil
    then show ?case by simp
  next
    case (Cons y ys)
    have "set (foldr (sort_insert cmp) ys []) \<subseteq> set xs"
      using Cons.prems set_Array_sort [of cmp ys] by (auto simp: Array_sort_def)
    with Cons show ?case
      using sorted_sort_insert [where A = "set xs" and cmp = cmp, OF total trans]
      by auto
  qed
  then show ?thesis by (simp add: Array_sort_def)
qed

lemma filter_sort_insert:
  assumes "\<And>y. y \<in> set ys \<Longrightarrow> P x \<Longrightarrow> P y \<Longrightarrow> \<not> goes_after cmp x y"
  shows "filter P (sort_insert cmp x ys) = (if P x then x # filter P ys else filter P ys)"
  using assms by (induction ys) auto

lemma filter_Array_sort:
  assumes "\<And>x y. x \<in> set xs \<Longrightarrow> y \<in> set xs \<Longrightarrow> P x \<Longrightarrow> P y \<Longrightarrow> \<not> goes_after cmp x y"
  shows "filter P (Array_sort cmp xs) = filter P xs"
proof -
  have "set ys \<subseteq> set xs \<Longrightarrow> filter P (foldr (sort_insert cmp) ys []) = filter P ys" for ys
  proof (induction ys)
    case Nil
    then show ?case by simp
  next
    case (Cons y ys)
    have sub: "set (foldr (sort_insert cmp) ys []) \<subseteq> set xs"
      using Cons.prems set_Array_sort [of cmp ys] by (auto simp: Array_sort_def)
    have "filter P (sort_insert cmp y (foldr (sort_insert cmp) ys []))
            = (if P y then y # filter P (foldr (sort_insert cmp) ys [])
               else filter P (foldr (sort_insert cmp) ys []))"
      using sub Cons.prems assms by (intro filter_sort_insert) auto
    with Cons show ?case by simp
  qed
  then show ?thesis by (simp add: Array_sort_def)
qed

lemma in_order_compare_jobs:
  assumes "getTime (created_at a) \<noteq> None" "getTime (created_at b) \<noteq> None"
  shows "in_order (compare_jobs getTime localeCompare s) a b
           \<longleftrightarrow> may_precede getTime localeCompare s a b"
  using assms
  by (cases s) (auto simp: in_order_def goes_after_def compare_jobs_def may_precede_def
        time_difference_def time_le_def)

lemma compare_units_total: "compare_units a b \<le> 0 \<or> compare_units b a \<le> 0"
  by (induction a b rule: compare_units.induct) auto

lemma compare_units_trans:
  "compare_units a b \<le> 0 \<Longrightarrow> compare_units b c \<le> 0 \<Longrightarrow> compare_units a c \<le> 0"
proof (induction a b arbitrary: c rule: compare_units.induct)
  case 1
  then show ?case by simp
next
  case (2 y ys)
  then show ?case by (cases c) auto
next
  case (3 x xs)
  then show ?case by simp
next
  case (4 x xs y ys)
  then show ?case
    by (cases c) (auto split: if_splits)
qed

text \<open>
  Claim C2, as stated, fails: jobs 3 and 2 have the same name, so they compare equal under
  \<open>name_asc\<close>; the sort leaves job 3 in front of job 2, as the pages delivered them, and
  does not break the tie by id ascending.
\<close>

theorem sort_does_not_break_ties_by_id:
  "compare_jobs small_getTime compare_units name_asc job3 job2 = Some 0
   \<and> id job2 < id job3
   \<and> Array_sort (compare_jobs small_getTime compare_units name_asc) [job3, job2] = [job3, job2]"
  by (simp add: compare_jobs_def job3_def job2_def code_units_def Array_sort_def goes_after_def)

text \<open>
  Claim C2, amended. For every sort value, with dates that parse and a collation that is
  total and transitive, the in-memory sort (which the list applies to the filtered jobs)
  returns the same jobs, ordered pairwise as the sort value says: \<open>newest\<close> by
  \<open>created_at\<close> descending, \<open>oldest\<close> ascending, \<open>name_asc\<close> and \<open>name_desc\<close> by name
  ascending and descending. Jobs that have the same key keep the order they had in the
  merged pages; the id plays no part. The displayed order is thus determined by the
  merged pages.
\<close>

theorem sort_orders_by_key_and_keeps_ties:
  assumes dates: "\<forall>j \<in> set jobs. getTime (created_at j) \<noteq> None"
    and total: "\<forall>a b. localeCompare a b \<le> 0 \<or> localeCompare b a \<le> 0"
    and trans: "\<forall>a b c. localeCompare a b \<le> 0 \<and> localeCompare b c \<le> 0 \<longrightarrow> localeCompare a c \<le> 0"
  shows "mset (Array_sort (compare_jobs getTime localeCompare s) jobs) = mset jobs
    \<and> sorted_wrt (may_precede getTime localeCompare s)
         (Array_sort (compare_jobs getTime localeCompare s) jobs)
    \<and> (\<forall>j \<in> set jobs.
          filter (same_key getTime localeCompare s j)
            (Array_sort (compare_jobs getTime localeCompare s) jobs)
          = filter (same_key getTime localeCompare s j) jobs)"
proof -
  let ?cmp = "compare_jobs getTime localeCompare s"
  let ?le = "may_precede getTime localeCompare s"
  have eq: "in_order ?cmp a b \<longleftrightarrow> ?le a b" if "a \<in> set jobs" "b \<in> set jobs" for a b
    using that dates in_order_compare_jobs by blast
  have le_total: "?le a b \<or> ?le b a" if ab: "a \<in> set jobs" "b \<in> set jobs" for a b
  proof -
    obtain ta tb where "getTime (created_at a) = Some ta" "getTime (created_at b) = Some tb"
      using ab dates by (metis not_None_eq)
    then show ?thesis
      using total by (cases s) (auto simp: may_precede_def time_le_def)
  qed
  have le_trans: "?le a c" if "?le a b" "?le b c" for a b c
  proof (cases s)
    case newest
    with that show ?thesis
      by (auto simp: may_precede_def time_le_def split: option.splits)
  next
    case oldest
    with that show ?thesis
      by (auto simp: may_precede_def time_le_def split: option.splits)
  next
    case name_asc
    with that show ?thesis
      using trans [rule_format, of "name a" "name b" "name c"] by (simp add: may_precede_def)
  next
    case name_desc
    with that show ?thesis
      using trans [rule_format, of "name c" "name b" "name a"] by (simp add: may_precede_def)
  qed
  have "sorted_wrt (in_order ?cmp) (Array_sort ?cmp jobs)"
  proof (rule sorted_Array_sort)
    show "in_order ?cmp a b \<or> in_order ?cmp b a" if "a \<in> set jobs" "b \<in> set jobs" for a b
      using that le_total eq by blast
    show "in_order ?cmp a c"
      if "a \<in> set jobs" "b \<in> set jobs" "c \<in> set jobs" "in_order ?cmp a b" "in_order ?cmp b c"
      for a b c
      using that le_trans eq by blast
  qed
  then have sorted: "sorted_wrt ?le (Array_sort ?cmp jobs)"
    by (rule sorted_wrt_mono_rel [rotated]) (simp add: eq set_Array_sort)
  have stable: "filter (same_key getTime localeCompare s j) (Array_sort ?cmp jobs)
          = filter (same_key getTime localeCompare s j) jobs" for j
  proof (rule filter_Array_sort)
    fix x y
    assume "x \<in> set jobs" "y \<in> set jobs"
      and "same_key getTime localeCompare s j x" "same_key getTime localeCompare s j y"
    then have "?le x y" and "x \<in> set jobs" "y \<in> set jobs"
      using le_trans [of x j y] by (auto simp: same_key_def)
    then show "\<not> goes_after ?cmp x y"
      using eq [of x y] by (simp add: in_order_def)
  qed
  from sorted stable show ?thesis
    by (simp add: mset_Array_sort)
qed


theorem sort_orders_by_key_and_keeps_ties_witness:
  "Array_sort (compare_jobs small_getTime compare_units newest) [job1, job3, job2]
     = [job3, job2, job1]
   \<and> sorted_wrt (may_precede small_getTime compare_units newest) [job3, job2, job1]
   \<and> filter (same_key small_getTime compare_units newest job3) [job3, job2, job1] = [job3, job2]"
proof -
  have dates: "\<forall>j \<in> set [job1, job3, job2]. small_getTime (created_at j) \<noteq> None"
    by (simp add: job1_def job2_def job3_def small_getTime_def)
  have total: "\<forall>a b. compare_units a b \<le> 0 \<or> compare_units b a \<le> 0"
    using compare_units_total by blast
  have trans: "\<forall>a b c. compare_units a b \<le> 0 \<and> compare_units b c \<le> 0 \<longrightarrow> compare_units a c \<le> 0"
    using compare_units_trans by blast
  have sorted: "Array_sort (compare_jobs small_getTime compare_units newest) [job1, job3, job2]
     = [job3, job2, job1]"
    by (simp add: compare_jobs_def job3_def job2_def job1_def Array_sort_def goes_after_def
        small_getTime_def time_difference_def)
  have ties: "filter (same_key small_getTime compare_units newest job3) [job1, job3, job2]
     = [job3, job2]"
    by (simp add: same_key_def may_precede_def time_le_def job3_def job2_def job1_def
        small_getTime_def)
  from sort_orders_by_key_and_keeps_ties [OF dates total trans, of newest] sorted ties
  show ?thesis by simp
qed

section \<open>Properties of the keyed job list\<close>

lemma retryer_map_outcome:
  "retryer r k (\<lambda>i. map_outcome g (fn i))
     = (fst (retryer r k fn), map_outcome g (snd (retryer r k fn)))"
proof (induction r k fn rule: retryer.induct)
  case (1 retry failureCount fn)
  show ?case
  proof (cases "fn failureCount")
    case (Inr v)
    then show ?thesis
      by (simp add: retryer_Inr map_outcome_def)
  next
    case (Inl e)
    show ?thesis
    proof (cases "failureCount < retry")
      case True
      with Inl "1.IH" show ?thesis
        by (simp add: retryer_again [where e = e] map_outcome_def)
    next
      case False
      with Inl show ?thesis
        by (simp add: retryer_last [where e = e] map_outcome_def)
    qed
  qed
qed

lemma retryer_Inr_run: "snd (retryer r k fn) = Inr v \<Longrightarrow> \<exists>i. fn i = Inr v"
proof (induction r k fn rule: retryer.induct)
  case (1 retry failureCount fn)
  show ?case
  proof (cases "fn failureCount")
    case (Inr u)
    with "1.prems" show ?thesis
      by (auto simp: retryer_Inr)
  next
    case (Inl e)
    show ?thesis
    proof (cases "failureCount < retry")
      case True
      with Inl "1.IH" "1.prems" show ?thesis
        by (simp add: retryer_again [where e = e])
    next
      case False
      with Inl "1.prems" show ?thesis
        by (simp add: retryer_last [where e = e])
    qed
  qed
qed

lemma retryer_runs: "k < fst (retryer r k fn)"
proof (induction r k fn rule: retryer.induct)
  case (1 retry failureCount fn)
  show ?case
  proof (cases "fn failureCount")
    case (Inr u)
    then show ?thesis
      by (simp add: retryer_Inr)
  next
    case (Inl e)
    show ?thesis
    proof (cases "failureCount < retry")
      case True
      with Inl "1.IH" [of e] show ?thesis
        by (simp add: retryer_again [where e = e])
    next
      case False
      with Inl show ?thesis
        by (simp add: retryer_last [where e = e])
    qed
  qed
qed

lemma getNextPageParam_undefined:
  "getNextPageParam w p = Inr None \<longleftrightarrow> next p = None \<or> next p = Some []"
  by (auto simp: getNextPageParam_def split: option.splits)

lemma getNextPageParam_Some:
  "getNextPageParam w p = Inr (Some n) \<longleftrightarrow>
     (\<exists>u. next p = Some u \<and> u \<noteq> [] \<and> page_of_url w u = Some n)"
  by (auto simp: getNextPageParam_def split: option.splits)

lemma fetch_next_appends:
  assumes "pages d \<noteq> []" "getNext (last (pages d)) = Inr (Some n)"
  shows "fetch_next queryFn getNext ipp d
           = map_outcome (\<lambda>page. \<lparr>pages = pages d @ [page], pageParams = pageParams d @ [n]\<rparr>)
               (queryFn n)"
  using assms
  by (simp add: fetch_next_def nextPageParam_def fetchPage_def map_outcome_def)

lemma map_outcome_comp: "map_outcome f (map_outcome g r) = map_outcome (\<lambda>x. f (g x)) r"
  by (cases r) (simp_all add: map_outcome_def)

lemma load_more_rendered:
  assumes "JobList w f s cache fetching fnp = Inr (List_view h b (Some btn))"
  shows "\<exists>d u n. list_data (cache (JobList_queryKey f s)) = Some d \<and> pages d \<noteq> []
           \<and> next (last (pages d)) = Some u \<and> u \<noteq> [] \<and> page_of_url w u = Some n"
    and "load_more_disabled btn = fnp"
proof -
  let ?d = "list_data (cache (JobList_queryKey f s))"
  from assms have has: "hasNextPage (getNextPageParam w) ?d = Inr True"
    by (auto simp: JobList_def Let_def load_more_button_def split: sum.splits if_splits option.splits)
  then obtain d where d: "?d = Some d"
    by (cases ?d) (auto simp: hasNextPage_def)
  with has obtain n where "nextPageParam (getNextPageParam w) d = Inr (Some n)"
    by (auto simp: hasNextPage_def split: sum.splits)
  then have "pages d \<noteq> []" and "getNextPageParam w (last (pages d)) = Inr (Some n)"
    by (auto simp: nextPageParam_def split: if_splits)
  with d show "\<exists>d u n. ?d = Some d \<and> pages d \<noteq> []
           \<and> next (last (pages d)) = Some u \<and> u \<noteq> [] \<and> page_of_url w u = Some n"
    by (auto simp: getNextPageParam_Some)
  from assms show "load_more_disabled btn = fnp"
    by (auto simp: JobList_def Let_def load_more_button_def split: sum.splits if_splits option.splits)
qed

lemma fetchNextPage_outcome:
  assumes d: "list_data (cache (JobList_queryKey f s)) = Some d" "pages d \<noteq> []"
    and nxt: "next (last (pages d)) = Some u" "u \<noteq> []" "page_of_url w u = Some n"
  shows "JobList_fetchNextPage w opts https f s cache
     = cache(JobList_queryKey f s \<mapsto> settle (cache (JobList_queryKey f s))
         (map_outcome (\<lambda>page. Job_pages \<lparr>pages = pages d @ [page], pageParams = pageParams d @ [n]\<rparr>)
            (snd (retryer (query_retry opts) 0 (\<lambda>i. JobList_queryFn w (https i) f s n)))))"
proof -
  have "getNextPageParam w (last (pages d)) = Inr (Some n)"
    using nxt by (simp add: getNextPageParam_Some)
  then have "fetch_next (JobList_queryFn w (https i) f s) (getNextPageParam w) initialPageParam d
           = map_outcome (\<lambda>page. \<lparr>pages = pages d @ [page], pageParams = pageParams d @ [n]\<rparr>)
               (JobList_queryFn w (https i) f s n)" for i
    using d(2) by (rule fetch_next_appends [rotated])
  then show ?thesis
    using d(1)
    by (simp add: JobList_fetchNextPage_def Let_def held_def retryer_map_outcome map_outcome_comp)
qed

lemma all_second_page:
  "JobList_queryFn small_world small_backend ALL_filter newest 2 = Inr (read_page page2_json)"
  by (simp add: JobList_queryFn_def fetchJobs_def small_backend_def BASE_def String_int_def
      String_nat.simps digit_char_def handleResponse_def ok_def small_world_def)

lemma load_more_absent:
  assumes "JobList w f s cache fetching fnp = Inr (List_view h b None)"
    and "list_data (cache (JobList_queryKey f s)) = Some d" "pages d \<noteq> []"
  shows "next (last (pages d)) = None \<or> next (last (pages d)) = Some []"
proof -
  from assms have "hasNextPage (getNextPageParam w) (Some d) = Inr False"
    by (auto simp: JobList_def Let_def load_more_button_def split: sum.splits if_splits option.splits)
  with assms(3) have "getNextPageParam w (last (pages d)) = Inr None"
    by (auto simp: hasNextPage_def nextPageParam_def split: sum.splits)
  then show ?thesis by (simp add: getNextPageParam_undefined)
qed

text \<open>
  Claim C6. For a \<open>next\<close> that is null or a URL (never the empty string),
  \<open>getNextPageParam\<close> returns \<open>undefined\<close> exactly when \<open>next\<close> of the last page is null.
  The Load More button is rendered only when the last page held for the current key has
  a \<open>next\<close> that is not null, from which a page number is read, and a list rendered
  without the button has a last page whose \<open>next\<close> is null; the button is disabled
  exactly while the next page is being fetched. Triggering it runs the query function
  for that page number under the current filter and sort (with the query retry), changes
  no other key, and on success stores the held pages followed by the new page, so the
  merged jobs are the previous ones, in their order, followed by the results of the new
  page; on failure the held pages stay.
\<close>

theorem load_more_appends_next_page:
  "(next p \<noteq> Some [] \<longrightarrow> (getNextPageParam w p = Inr None \<longleftrightarrow> next p = None))
   \<and> (JobList w f s cache fetching fnp = Inr (List_view h b (Some btn)) \<longrightarrow>
        (\<exists>d u n. list_data (cache (JobList_queryKey f s)) = Some d \<and> pages d \<noteq> []
            \<and> next (last (pages d)) = Some u \<and> u \<noteq> [] \<and> page_of_url w u = Some n)
        \<and> load_more_disabled btn = fnp)
   \<and> (JobList w f s cache fetching fnp = Inr (List_view h b None)
        \<and> list_data (cache (JobList_queryKey f s)) = Some d \<and> pages d \<noteq> []
        \<and> next (last (pages d)) \<noteq> Some [] \<longrightarrow>
        next (last (pages d)) = None)
   \<and> (list_data (cache (JobList_queryKey f s)) = Some d \<and> pages d \<noteq> []
        \<and> next (last (pages d)) = Some u \<and> u \<noteq> [] \<and> page_of_url w u = Some n \<longrightarrow>
        JobList_fetchNextPage w opts https f s cache
          = cache(JobList_queryKey f s \<mapsto> settle (cache (JobList_queryKey f s))
              (map_outcome
                 (\<lambda>page. Job_pages \<lparr>pages = pages d @ [page], pageParams = pageParams d @ [n]\<rparr>)
                 (snd (retryer (query_retry opts) 0 (\<lambda>i. JobList_queryFn w (https i) f s n))))))
   \<and> flatMap_results (pages d @ [page]) = flatMap_results (pages d) @ results page"
proof -
  have flat: "flatMap_results (pages d @ [page]) = flatMap_results (pages d) @ results page"
    by (simp add: flatMap_results_def)
  from getNextPageParam_undefined [of w p] load_more_rendered [of w f s cache fetching fnp h b btn]
    load_more_absent [of w f s cache fetching fnp h b d]
    fetchNextPage_outcome [of cache f s d u w n opts https] flat
  show ?thesis by blast
qed

lemma keyed_first_view:
  "JobList small_world ALL_filter newest keyed_first_page False False
     = Inr (List_view (Heading_all 2 3) (Cards [job3, job2])
              (Some \<lparr>load_more_disabled = False, load_more_label = Remaining 1\<rparr>))"
  by (simp add: JobList_def keyed_first_page_def list_data_def held_def read_page1
      flatMap_results_def totalCount_def hasNextPage_def nextPageParam_def getNextPageParam_def
      small_world_def load_more_button_def)

theorem load_more_appends_next_page_witness:
  "JobList small_world ALL_filter newest keyed_first_page False False
     = Inr (List_view (Heading_all 2 3) (Cards [job3, job2])
              (Some \<lparr>load_more_disabled = False, load_more_label = Remaining 1\<rparr>))
   \<and> next (last [read_page page1_json])
       = Some ''http://backend:8000/api/jobs/?page=2&sort=newest''
   \<and> JobList_fetchNextPage small_world queryClient (every_run small_backend) ALL_filter newest
       keyed_first_page
     = [JobList_queryKey ALL_filter newest \<mapsto>
          \<lparr>state_data = Some (Job_pages \<lparr>pages = [read_page page1_json, read_page page2_json],
                                         pageParams = [1, 2]\<rparr>),
           state_error = None, isInvalidated = False\<rparr>]
   \<and> flatMap_results [read_page page1_json, read_page page2_json] = [job3, job2, job1]
   \<and> JobList small_world ALL_filter newest
        (JobList_fetchNextPage small_world queryClient (every_run small_backend) ALL_filter newest
           keyed_first_page) False False
     = Inr (List_view (Heading_all 3 3) (Cards [job3, job2, job1]) None)
   \<and> next (last [read_page page1_json, read_page page2_json]) = None"
proof -
  note inst = load_more_appends_next_page
      [of "read_page page1_json" small_world ALL_filter newest keyed_first_page False False
          "Heading_all 2 3" "Cards [job3, job2]"
          "\<lparr>load_more_disabled = False, load_more_label = Remaining 1\<rparr>"
          "\<lparr>pages = [read_page page1_json], pageParams = [1]\<rparr>"
          "''http://backend:8000/api/jobs/?page=2&sort=newest''" 2 queryClient
          "every_run small_backend" "read_page page2_json"]
  have held_page: "list_data (keyed_first_page (JobList_queryKey ALL_filter newest))
      = Some \<lparr>pages = [read_page page1_json], pageParams = [1]\<rparr>"
    by (simp add: keyed_first_page_def list_data_def)
  have number: "page_of_url small_world ''http://backend:8000/api/jobs/?page=2&sort=newest'' = Some 2"
    by (simp add: small_world_def)
  have run: "retryer (query_retry queryClient) 0
      (\<lambda>i. JobList_queryFn small_world (every_run small_backend i) ALL_filter newest 2)
      = (1, Inr (read_page page2_json))"
    by (simp add: retryer_Inr every_run_def all_second_page)
  have link: "next (last [read_page page1_json])
      = Some ''http://backend:8000/api/jobs/?page=2&sort=newest''"
    by (simp add: read_page1)
  have step: "JobList_fetchNextPage small_world queryClient (every_run small_backend) ALL_filter
      newest keyed_first_page
      = keyed_first_page(JobList_queryKey ALL_filter newest \<mapsto>
          settle (keyed_first_page (JobList_queryKey ALL_filter newest))
            (map_outcome
               (\<lambda>page. Job_pages \<lparr>pages = [read_page page1_json] @ [page], pageParams = [1] @ [2]\<rparr>)
               (snd (retryer (query_retry queryClient) 0
                  (\<lambda>i. JobList_queryFn small_world (every_run small_backend i) ALL_filter newest 2)))))"
    using inst held_page link number by simp
  have loaded: "JobList_fetchNextPage small_world queryClient (every_run small_backend) ALL_filter
      newest keyed_first_page
     = [JobList_queryKey ALL_filter newest \<mapsto>
          \<lparr>state_data = Some (Job_pages \<lparr>pages = [read_page page1_json, read_page page2_json],
                                         pageParams = [1, 2]\<rparr>),
           state_error = None, isInvalidated = False\<rparr>]"
    unfolding step run by (simp add: keyed_first_page_def settle_def map_outcome_def)
  have after: "JobList small_world ALL_filter newest
        [JobList_queryKey ALL_filter newest \<mapsto>
          \<lparr>state_data = Some (Job_pages \<lparr>pages = [read_page page1_json, read_page page2_json],
                                         pageParams = [1, 2]\<rparr>),
           state_error = None, isInvalidated = False\<rparr>] False False
     = Inr (List_view (Heading_all 3 3) (Cards [job3, job2, job1]) None)"
    by (simp add: JobList_def list_data_def held_def read_page1 read_page2
        flatMap_results_def totalCount_def hasNextPage_def nextPageParam_def getNextPageParam_def
        load_more_button_def)
  have last_link: "next (last [read_page page1_json, read_page page2_json]) = None"
    using load_more_appends_next_page
      [of "read_page page2_json" small_world ALL_filter newest
          "[JobList_queryKey ALL_filter newest \<mapsto>
              \<lparr>state_data = Some (Job_pages \<lparr>pages = [read_page page1_json, read_page page2_json],
                                             pageParams = [1, 2]\<rparr>),
               state_error = None, isInvalidated = False\<rparr>]"
          False False "Heading_all 3 3" "Cards [job3, job2, job1]"
          "\<lparr>load_more_disabled = False, load_more_label = Loading_label\<rparr>"
          "\<lparr>pages = [read_page page1_json, read_page page2_json], pageParams = [1, 2]\<rparr>"
          "[]" 0 queryClient "every_run small_backend" "read_page page2_json"]
      after
    by (simp add: list_data_def read_page2)
  show ?thesis
    unfolding loaded after using keyed_first_view link last_link
    by (simp add: read_page1 read_page2 flatMap_results_def)
qed

section \<open>Invalidation after a mutation\<close>

lemma list_data_settle_pages:
  "list_data (Some (settle old (map_outcome Job_pages r)))
     = (case r of Inl e \<Rightarrow> list_data old | Inr d \<Rightarrow> Some d)"
  by (cases r; cases old) (simp_all add: list_data_def settle_def map_outcome_def)

lemma list_data_settle_history:
  "list_data (Some (settle old (map_outcome Job_history r)))
     = (case r of Inl e \<Rightarrow> list_data old | Inr h \<Rightarrow> None)"
  by (cases r; cases old) (simp_all add: list_data_def settle_def map_outcome_def)

lemma list_data_invalidateQueries:
  "list_data (invalidateQueries filterKey cache k) = list_data (cache k)"
  by (cases "cache k") (simp_all add: invalidateQueries_def list_data_def)

lemma fetchPage_Inr:
  "fetchPage queryFn d n = Inr d' \<longleftrightarrow>
     (\<exists>page. queryFn n = Inr page
        \<and> d' = \<lparr>pages = pages d @ [page], pageParams = pageParams d @ [n]\<rparr>)"
  by (auto simp: fetchPage_def split: sum.splits)

lemma fetchPage_starts:
  "fetchPage queryFn d n = Inr d' \<Longrightarrow> pageParams d \<noteq> [] \<Longrightarrow> starts_at_first d
     \<Longrightarrow> pageParams d' \<noteq> [] \<and> starts_at_first d'"
  by (cases "pageParams d") (auto simp: fetchPage_Inr starts_at_first_def)

lemma fetch_remaining_starts:
  "fetch_remaining queryFn getNext m d = Inr d' \<Longrightarrow> pageParams d \<noteq> [] \<Longrightarrow> starts_at_first d
     \<Longrightarrow> starts_at_first d'"
proof (induction m arbitrary: d)
  case 0
  then show ?case by simp
next
  case (Suc m)
  show ?case
  proof (cases "nextPageParam getNext d")
    case (Inl e)
    with Suc.prems show ?thesis by simp
  next
    case (Inr param)
    show ?thesis
    proof (cases param)
      case None
      with Inr Suc.prems show ?thesis by simp
    next
      case (Some n)
      with Inr Suc.prems obtain d1 where d1: "fetchPage queryFn d n = Inr d1"
        and rest: "fetch_remaining queryFn getNext m d1 = Inr d'"
        by (auto split: sum.splits)
      from fetchPage_starts [OF d1 Suc.prems(2,3)] Suc.IH [OF rest] show ?thesis
        by simp
    qed
  qed
qed

lemma fetch_all_from_first_page:
  assumes "starts_at_first old"
  shows "fetch_all queryFn getNext initialPageParam old
     = (case queryFn 1 of
          Inl e \<Rightarrow> Inl e
        | Inr page \<Rightarrow>
            fetch_remaining queryFn getNext (length (pages old) - 1)
              \<lparr>pages = [page], pageParams = [1]\<rparr>)"
  using assms
  by (cases "pageParams old")
     (simp_all add: fetch_all_def starts_at_first_def fetchPage_def initialPageParam_def
        split: sum.splits)

lemma fetch_all_starts:
  assumes "starts_at_first old" "fetch_all queryFn getNext initialPageParam old = Inr d"
  shows "starts_at_first d"
proof -
  from assms obtain page where
    "fetch_remaining queryFn getNext (length (pages old) - 1) \<lparr>pages = [page], pageParams = [1]\<rparr>
       = Inr d"
    by (auto simp: fetch_all_from_first_page split: sum.splits)
  then show ?thesis
    by (rule fetch_remaining_starts) (simp_all add: starts_at_first_def initialPageParam_def)
qed

lemma fetch_next_starts:
  assumes "starts_at_first old" "fetch_next queryFn getNext initialPageParam old = Inr d"
  shows "starts_at_first d"
proof (cases "pages old = []")
  case True
  with assms show ?thesis
    by (simp add: fetch_next_def fetch_all_starts)
next
  case False
  with assms(1) have params: "pageParams old \<noteq> []"
    by (auto simp: starts_at_first_def)
  show ?thesis
  proof (cases "nextPageParam getNext old")
    case (Inl e)
    with False assms show ?thesis by (simp add: fetch_next_def)
  next
    case (Inr param)
    with False assms params show ?thesis
      by (cases param) (auto simp: fetch_next_def dest: fetchPage_starts)
  qed
qed

lemma starts_at_first_held:
  "(\<And>d. x = Some d \<Longrightarrow> starts_at_first d) \<Longrightarrow> starts_at_first (held x)"
  by (cases x) (simp_all add: held_def starts_at_first_def)

lemma reachable_starts_at_first:
  "reachable w opts c \<Longrightarrow> list_data (c k) = Some d \<Longrightarrow> starts_at_first d"
proof (induction arbitrary: k d rule: reachable.induct)
  case empty_cache
  then show ?case by (simp add: list_data_def)
next
  case (list_read c https f s)
  let ?key = "JobList_queryKey f s"
  have old: "starts_at_first (held (list_data (c ?key)))"
    using list_read.IH by (rule starts_at_first_held)
  show ?case
  proof (cases "k = ?key \<and> needs_fetch (c ?key)")
    case False
    with list_read show ?thesis
      by (auto simp: JobList_read_def Let_def split: if_splits)
  next
    case True
    let ?r = "snd (retryer (query_retry opts) 0
                (\<lambda>i. fetch_all (JobList_queryFn w (https i) f s) (getNextPageParam w)
                        initialPageParam (held (list_data (c ?key)))))"
    from True list_read.prems have d: "(case ?r of Inl e \<Rightarrow> list_data (c ?key) | Inr d \<Rightarrow> Some d) = Some d"
      by (simp add: JobList_read_def Let_def list_data_settle_pages)
    show ?thesis
    proof (cases ?r)
      case (Inl e)
      with d list_read.IH show ?thesis by simp
    next
      case (Inr d')
      with d have "d' = d" by simp
      with Inr retryer_Inr_run obtain i where
        "fetch_all (JobList_queryFn w (https i) f s) (getNextPageParam w) initialPageParam
           (held (list_data (c ?key))) = Inr d"
        by fastforce
      with old show ?thesis by (rule fetch_all_starts)
    qed
  qed
next
  case (load_more c https f s)
  let ?key = "JobList_queryKey f s"
  have old: "starts_at_first (held (list_data (c ?key)))"
    using load_more.IH by (rule starts_at_first_held)
  show ?case
  proof (cases "k = ?key")
    case False
    with load_more show ?thesis
      by (auto simp: JobList_fetchNextPage_def Let_def)
  next
    case True
    let ?r = "snd (retryer (query_retry opts) 0
                (\<lambda>i. fetch_next (JobList_queryFn w (https i) f s) (getNextPageParam w)
                        initialPageParam (held (list_data (c ?key)))))"
    from True load_more.prems have d: "(case ?r of Inl e \<Rightarrow> list_data (c ?key) | Inr d \<Rightarrow> Some d) = Some d"
      by (simp add: JobList_fetchNextPage_def Let_def list_data_settle_pages)
    show ?thesis
    proof (cases ?r)
      case (Inl e)
      with d load_more.IH show ?thesis by simp
    next
      case (Inr d')
      with d have "d' = d" by simp
      with Inr retryer_Inr_run obtain i where
        "fetch_next (JobList_queryFn w (https i) f s) (getNextPageParam w) initialPageParam
           (held (list_data (c ?key))) = Inr d"
        by fastforce
      with old show ?thesis by (rule fetch_next_starts)
    qed
  qed
next
  case (history_read c https job sh)
  then show ?case
    by (auto simp: JobCard_history_read_def Let_def list_data_settle_history
          split: if_splits sum.splits)
next
  case (created c https payload form)
  then show ?case
    by (auto simp: CreateJobForm_mutation_def CreateJobForm_onSuccess_def Let_def
          list_data_invalidateQueries split: sum.splits)
next
  case (updated c https job st)
  then show ?case
    by (auto simp: JobCard_updateMutation_def JobCard_onSuccess_def Let_def
          list_data_invalidateQueries split: sum.splits)
next
  case (deleted c https job)
  then show ?case
    by (auto simp: JobCard_deleteMutation_def JobCard_onSuccess_def Let_def
          list_data_invalidateQueries split: sum.splits)
qed

lemma jobs_keys:
  "partialMatchKey (JobList_queryKey f s) [KStr ''jobs'']"
  "partialMatchKey (JobList_in_memory_queryKey f s) [KStr ''jobs'']"
  "partialMatchKey (history_queryKey (JobCard_history_query job sh)) [KStr ''jobs'']"
  by (simp_all add: JobList_queryKey_def JobList_in_memory_queryKey_def JobCard_history_query_def)

lemma invalidateQueries_matching:
  assumes "partialMatchKey k filterKey"
  shows "needs_fetch (invalidateQueries filterKey cache k)"
    and "cache k = Some q \<Longrightarrow> invalidateQueries filterKey cache k = Some (q\<lparr>isInvalidated := True\<rparr>)"
  using assms
  by (cases "cache k"; simp add: invalidateQueries_def needs_fetch_def)+

lemma settled_mutation_success:
  "mutation_error (settled_mutation r) = None \<longleftrightarrow> (\<exists>v. r = Inr v)"
  by (cases r) (simp_all add: settled_mutation_def)

lemma all_first_page:
  "JobList_queryFn small_world small_backend ALL_filter newest 1 = Inr (read_page page1_json)"
  by (simp add: JobList_queryFn_def fetchJobs_def small_backend_def BASE_def String_int_def
      String_nat.simps digit_char_def handleResponse_def ok_def small_world_def)

lemma read_all_list:
  "JobList_read small_world queryClient (every_run small_backend) ALL_filter newest Map.empty
     = keyed_first_page"
  by (simp add: JobList_read_def needs_fetch_def every_run_def fetch_all_def list_data_def held_def
      initialPageParam_def fetchPage_def all_first_page retryer_Inr settle_def map_outcome_def
      keyed_first_page_def)

lemma update_job1:
  "updateJobStatus (as_job small_world) small_backend 1 FAILED
     = Inr (job1\<lparr>current_status := Some FAILED\<rparr>)"
  by (simp add: updateJobStatus_def small_backend_def BASE_def String_int_def String_nat.simps
      digit_char_def handleResponse_def ok_def small_world_def read_Job_def job_json_def
      member_or_null_def json_status_def job1_def)

text \<open>
  Claim C4. In a cache that the program has brought about, after a create, a status
  update or a delete that succeeded, the cache is the old one with every query whose key
  starts with \<open>['jobs']\<close> marked invalidated and its data untouched. The keys of both
  lists and of every job's history start with \<open>['jobs']\<close>. So each of them is fetched at
  its next read: the read of a list runs the query function for page 1 and builds the
  pages anew from the replies (following \<open>next\<close> for at most as many pages as were held),
  and a render of a card with the panel open runs the history query function.
\<close>

theorem successful_mutation_invalidates_job_queries:
  assumes reach: "reachable w opts cache"
    and ran: "(result, cache')
                = (fst (CreateJobForm_mutation w opts https payload (form, cache)),
                   snd (snd (CreateJobForm_mutation w opts https payload (form, cache))))
              \<or> (result, cache') = JobCard_updateMutation w opts https job st cache
              \<or> (result, cache') = JobCard_deleteMutation opts https job cache"
    and success: "mutation_error result = None"
  shows "cache' = invalidateQueries [KStr ''jobs''] cache
    \<and> (\<forall>k. partialMatchKey k [KStr ''jobs''] \<longrightarrow>
           needs_fetch (cache' k)
           \<and> (\<forall>q. cache k = Some q \<longrightarrow> cache' k = Some (q\<lparr>isInvalidated := True\<rparr>)))
    \<and> partialMatchKey (JobList_queryKey f s) [KStr ''jobs'']
    \<and> partialMatchKey (JobList_in_memory_queryKey f s) [KStr ''jobs'']
    \<and> partialMatchKey (history_queryKey (JobCard_history_query j sh)) [KStr ''jobs'']
    \<and> JobList_read w opts https' f s cache'
        = cache'(JobList_queryKey f s \<mapsto> settle (cache' (JobList_queryKey f s))
            (map_outcome Job_pages (snd (retryer (query_retry opts) 0
               (\<lambda>i. case JobList_queryFn w (https' i) f s 1 of
                       Inl e \<Rightarrow> Inl e
                     | Inr page \<Rightarrow>
                         fetch_remaining (JobList_queryFn w (https' i) f s) (getNextPageParam w)
                           (length (pages (held (list_data (cache (JobList_queryKey f s))))) - 1)
                           \<lparr>pages = [page], pageParams = [1]\<rparr>)))))
    \<and> 0 < fst (JobCard_history_read w opts https' j True cache')"
proof -
  have inv: "cache' = invalidateQueries [KStr ''jobs''] cache"
    using ran
  proof (elim disjE)
    assume "(result, cache')
                = (fst (CreateJobForm_mutation w opts https payload (form, cache)),
                   snd (snd (CreateJobForm_mutation w opts https payload (form, cache))))"
    with success show ?thesis
      by (auto simp: CreateJobForm_mutation_def CreateJobForm_onSuccess_def Let_def
            settled_mutation_def split: sum.splits)
  next
    assume "(result, cache') = JobCard_updateMutation w opts https job st cache"
    with success show ?thesis
      by (auto simp: JobCard_updateMutation_def JobCard_onSuccess_def Let_def
            settled_mutation_def split: sum.splits)
  next
    assume "(result, cache') = JobCard_deleteMutation opts https job cache"
    with success show ?thesis
      by (auto simp: JobCard_deleteMutation_def JobCard_onSuccess_def Let_def
            settled_mutation_def split: sum.splits)
  qed
  let ?key = "JobList_queryKey f s"
  have stale: "needs_fetch (cache' ?key)"
    unfolding inv by (rule invalidateQueries_matching) (rule jobs_keys)
  have same: "list_data (cache' ?key) = list_data (cache ?key)"
    unfolding inv by (rule list_data_invalidateQueries)
  have "starts_at_first (held (list_data (cache ?key)))"
    using reachable_starts_at_first [OF reach] by (rule starts_at_first_held)
  then have read: "JobList_read w opts https' f s cache'
        = cache'(?key \<mapsto> settle (cache' ?key)
            (map_outcome Job_pages (snd (retryer (query_retry opts) 0
               (\<lambda>i. case JobList_queryFn w (https' i) f s 1 of
                       Inl e \<Rightarrow> Inl e
                     | Inr page \<Rightarrow>
                         fetch_remaining (JobList_queryFn w (https' i) f s) (getNextPageParam w)
                           (length (pages (held (list_data (cache ?key)))) - 1)
                           \<lparr>pages = [page], pageParams = [1]\<rparr>)))))"
    using stale by (simp add: JobList_read_def Let_def same fetch_all_from_first_page)
  have "needs_fetch (cache' (history_queryKey (JobCard_history_query j True)))"
    unfolding inv by (rule invalidateQueries_matching) (rule jobs_keys)
  then have hist: "0 < fst (JobCard_history_read w opts https' j True cache')"
    by (simp add: JobCard_history_read_def Let_def JobCard_history_query_def retryer_runs)
  have flagged: "needs_fetch (cache' k) \<and> (\<forall>q. cache k = Some q \<longrightarrow> cache' k = Some (q\<lparr>isInvalidated := True\<rparr>))"
    if "partialMatchKey k [KStr ''jobs'']" for k
    unfolding inv using invalidateQueries_matching [OF that] by blast
  from inv flagged read hist jobs_keys show ?thesis
    by blast
qed

theorem successful_mutation_invalidates_job_queries_witness:
  "JobCard_updateMutation small_world queryClient (every_run small_backend) job1 FAILED
     keyed_first_page
     = (no_mutation,
        [JobList_queryKey ALL_filter newest \<mapsto>
           \<lparr>state_data = Some (Job_pages \<lparr>pages = [read_page page1_json], pageParams = [1]\<rparr>),
            state_error = None, isInvalidated = True\<rparr>])
   \<and> needs_fetch (snd (JobCard_updateMutation small_world queryClient (every_run small_backend)
                         job1 FAILED keyed_first_page) (JobList_queryKey ALL_filter newest))"
proof -
  have reach: "reachable small_world queryClient keyed_first_page"
    using reachable.list_read [OF reachable.empty_cache,
        of small_world queryClient "every_run small_backend" ALL_filter newest]
    by (simp add: read_all_list)
  have run: "retryer (mutation_retry queryClient) 0
      (\<lambda>i. updateJobStatus (as_job small_world) (every_run small_backend i) (id job1) FAILED)
      = (1, Inr (job1\<lparr>current_status := Some FAILED\<rparr>))"
    by (simp add: retryer_Inr every_run_def update_job1 job1_def)
  have result: "JobCard_updateMutation small_world queryClient (every_run small_backend) job1 FAILED
     keyed_first_page
     = (no_mutation, invalidateQueries [KStr ''jobs''] keyed_first_page)"
    by (simp add: JobCard_updateMutation_def Let_def run settled_mutation_def no_mutation_def
        JobCard_onSuccess_def)
  have flagged: "invalidateQueries [KStr ''jobs''] keyed_first_page
      = [JobList_queryKey ALL_filter newest \<mapsto>
           \<lparr>state_data = Some (Job_pages \<lparr>pages = [read_page page1_json], pageParams = [1]\<rparr>),
            state_error = None, isInvalidated = True\<rparr>]"
    by (rule ext) (simp add: invalidateQueries_def keyed_first_page_def JobList_queryKey_def)
  have ran: "(no_mutation, invalidateQueries [KStr ''jobs''] keyed_first_page)
                = (fst (CreateJobForm_mutation small_world queryClient (every_run small_backend)
                          \<lparr>payload_name = []\<rparr>
                          (\<lparr>form_name = [], validationError = [], mutate_calls = []\<rparr>,
                           keyed_first_page)),
                   snd (snd (CreateJobForm_mutation small_world queryClient
                          (every_run small_backend) \<lparr>payload_name = []\<rparr>
                          (\<lparr>form_name = [], validationError = [], mutate_calls = []\<rparr>,
                           keyed_first_page))))
              \<or> (no_mutation, invalidateQueries [KStr ''jobs''] keyed_first_page)
                  = JobCard_updateMutation small_world queryClient (every_run small_backend) job1
                      FAILED keyed_first_page
              \<or> (no_mutation, invalidateQueries [KStr ''jobs''] keyed_first_page)
                  = JobCard_deleteMutation queryClient (every_run small_backend) job1
                      keyed_first_page"
    using result by simp
  have success: "mutation_error no_mutation = None"
    by (simp add: no_mutation_def)
  from successful_mutation_invalidates_job_queries
    [OF reach ran success, of ALL_filter newest job1 True "every_run small_backend"]
  have "needs_fetch (invalidateQueries [KStr ''jobs''] keyed_first_page
                       (JobList_queryKey ALL_filter newest))"
    by blast
  then show ?thesis
    by (simp add: result flagged)
qed

section \<open>The retry settings\<close>

text \<open>
  The shared client gives queries one retry and mutations none: a query function that
  fails is run a second time and no more, a mutation function is run once. An error of
  the list query is shown in place of the list.
\<close>

theorem queries_retry_once_mutations_never:
  "query_retry queryClient = 1
   \<and> mutation_retry queryClient = 0
   \<and> retryer (query_retry queryClient) 0 fn
       = (case fn 0 of Inr v \<Rightarrow> (1, Inr v) | Inl e \<Rightarrow> (2, fn 1))
   \<and> retryer (mutation_retry queryClient) 0 fn = (1, fn 0)
   \<and> JobList w f s
         [JobList_queryKey f s \<mapsto> \<lparr>state_data = None, state_error = Some e, isInvalidated = False\<rparr>]
         False False
       = Inr (Failed_to_load (error_message e))"
proof -
  have q: "query_retry queryClient = 1" and m: "mutation_retry queryClient = 0"
    by (simp_all add: query_retry_def mutation_retry_def queryClient_def)
  have once: "retryer 0 0 fn = (1, fn 0)"
    by (cases "fn 0") (simp_all add: retryer_Inr retryer_last)
  have second: "retryer (Suc 0) (Suc 0) fn = (2, fn (Suc 0))"
    by (cases "fn (Suc 0)") (simp_all add: retryer_Inr retryer_last)
  have twice: "retryer 1 0 fn = (case fn 0 of Inr v \<Rightarrow> (1, Inr v) | Inl e \<Rightarrow> (2, fn 1))"
  proof (cases "fn 0")
    case (Inl e)
    then have "retryer 1 0 fn = retryer 1 (Suc 0) fn"
      by (rule retryer_again) simp
    with Inl second show ?thesis by simp
  next
    case (Inr v)
    then show ?thesis by (simp add: retryer_Inr)
  qed
  have shown: "JobList w f s
         [JobList_queryKey f s \<mapsto> \<lparr>state_data = None, state_error = Some e, isInvalidated = False\<rparr>]
         False False
       = Inr (Failed_to_load (error_message e))"
    by (simp add: JobList_def list_data_def hasNextPage_def)
  from q m once twice shown show ?thesis by simp
qed

section \<open>The two job lists: where the filter is applied, and the cache keys\<close>

lemma read_plain_page1:
  "read_page plain_page1_json
     = \<lparr>count = 3,
        next = Some ''http://backend:8000/api/jobs/?page=2&sort=undefined&status=undefined'',
        previous = None, results = [job3, job2]\<rparr>"
  by (simp add: read_page_def plain_page1_json_def member_or_null_def read_Job_def job_json_def
      json_status_def job3_def job2_def)

lemma read_plain_page2:
  "read_page plain_page2_json
     = \<lparr>count = 3, next = None,
        previous = Some ''http://backend:8000/api/jobs/?sort=undefined&status=undefined'',
        results = [job1]\<rparr>"
  by (simp add: read_page_def plain_page2_json_def member_or_null_def read_Job_def job_json_def
      json_status_def job1_def)

lemma in_memory_request:
  "JobList_in_memory_queryFn w http n
     = (case http \<lparr>req_method = GET, path = ''/api/jobs/'',
                   params = [(''page'', String_int n), (''sort'', ''undefined''),
                             (''status'', ''undefined'')],
                   body = None\<rparr> of
          None \<Rightarrow> Inl TypeError
        | Some res \<Rightarrow> handleResponse (as_page w) res)"
  by (simp add: JobList_in_memory_queryFn_def fetchJobs_def BASE_def)

lemma plain_first_page:
  "JobList_in_memory_queryFn small_world plain_backend 1 = Inr (read_page plain_page1_json)"
  by (simp add: in_memory_request plain_backend_def String_int_def String_nat.simps digit_char_def
      handleResponse_def ok_def small_world_def)

lemma plain_second_page:
  "JobList_in_memory_queryFn small_world plain_backend 2 = Inr (read_page plain_page2_json)"
  by (simp add: in_memory_request plain_backend_def String_int_def String_nat.simps digit_char_def
      handleResponse_def ok_def small_world_def)

lemma in_memory_first_read:
  "JobList_in_memory_read small_world queryClient (every_run plain_backend) f s no_queries
     = [[KStr ''jobs''] \<mapsto>
          \<lparr>state_data = Some (Job_pages \<lparr>pages = [read_page plain_page1_json], pageParams = [1]\<rparr>),
           state_error = None, isInvalidated = False\<rparr>]"
  by (simp add: JobList_in_memory_read_def JobList_in_memory_queryKey_def no_queries_def
      needs_fetch_def every_run_def fetch_all_def list_data_def held_def initialPageParam_def
      fetchPage_def plain_first_page retryer_Inr settle_def map_outcome_def)


text \<open>
  Claim C1, as stated, fails. The in-memory list reads its first page from a backend
  (its request carries \<open>sort=undefined\<close> and \<open>status=undefined\<close>, whatever the filter) and
  holds jobs 3 and 2, both \<open>PENDING\<close>; one more page exists. Under the filter \<open>RUNNING\<close> it
  filters those two jobs and shows none, although the second page of the same backend
  holds job 1, which is \<open>RUNNING\<close>.
\<close>

theorem in_memory_filter_sees_loaded_pages_only:
  "JobList_in_memory small_getTime compare_units small_world (Status RUNNING) newest
     (JobList_in_memory_read small_world queryClient (every_run plain_backend) (Status RUNNING)
        newest no_queries)
     False False
     = Inr (List_view (Heading_status_loaded 0 ''Running'' 2) (No_jobs_with_status ''Running'')
              (Some \<lparr>load_more_disabled = False, load_more_label = Remaining 1\<rparr>))
   \<and> JobList_in_memory_queryFn small_world plain_backend 2
       = Inr \<lparr>count = 3, next = None,
              previous = Some ''http://backend:8000/api/jobs/?sort=undefined&status=undefined'',
              results = [job1]\<rparr>
   \<and> current_status job1 = Some RUNNING"
  unfolding in_memory_first_read plain_second_page read_plain_page2
  by (simp add: JobList_in_memory_def JobList_in_memory_queryKey_def
      list_data_def held_def read_plain_page1 flatMap_results_def totalCount_def hasNextPage_def
      nextPageParam_def getNextPageParam_def small_world_def filtered_jobs_def job3_def job2_def
      job1_def Array_sort_def filter_label_def load_more_button_def)

text \<open>
  Claim C1, amended. The keyed list sends the filter to the backend: its request carries
  \<open>page\<close> and \<open>sort\<close>, and \<open>status\<close> with the filter value exactly when the filter is not
  \<open>ALL\<close>; it shows the results of the pages held for its key, in order, with no filter
  of its own. The request of the in-memory list carries no filter of the component, and
  its read is the same for every filter and sort; under a filter other than \<open>ALL\<close> it
  shows exactly those jobs of the pages already fetched whose \<open>current_status\<close> is the
  filter value (sorted in memory), and counts them against the number of jobs loaded.
\<close>

theorem filter_on_the_server_or_over_loaded_pages:
  "JobList_queryFn w http f s n
     = (case http \<lparr>req_method = GET, path = ''/api/jobs/'',
                   params = [(''page'', String_int n), (''sort'', sort_string s)]
                            @ (case f of ALL_filter \<Rightarrow> [] | Status st \<Rightarrow> [(''status'', status_string st)]),
                   body = None\<rparr> of
          None \<Rightarrow> Inl TypeError
        | Some res \<Rightarrow> handleResponse (as_page w) res)
   \<and> JobList w f s
         [JobList_queryKey f s \<mapsto>
            \<lparr>state_data = Some (Job_pages \<lparr>pages = p # ps, pageParams = ns\<rparr>),
             state_error = None, isInvalidated = i\<rparr>]
         fetching False
       = (case getNextPageParam w (last (p # ps)) of
            Inl e \<Rightarrow> Inl e
          | Inr param \<Rightarrow>
              Inr (List_view
                     (if f \<noteq> ALL_filter
                      then Heading_status (length (flatMap_results (p # ps))) (filter_label f) (count p)
                      else Heading_all (length (flatMap_results (p # ps))) (count p))
                     (if flatMap_results (p # ps) = []
                      then (if f = ALL_filter then No_jobs_yet else No_jobs_with_status (filter_label f))
                      else Cards (flatMap_results (p # ps)))
                     (load_more_button (param \<noteq> None) False (count p)
                        (length (flatMap_results (p # ps))))))
   \<and> JobList_in_memory_queryFn w http n
       = (case http \<lparr>req_method = GET, path = ''/api/jobs/'',
                     params = [(''page'', String_int n), (''sort'', ''undefined''),
                               (''status'', ''undefined'')],
                     body = None\<rparr> of
            None \<Rightarrow> Inl TypeError
          | Some res \<Rightarrow> handleResponse (as_page w) res)
   \<and> JobList_in_memory_read w opts https f s cache
       = JobList_in_memory_read w opts https ALL_filter newest cache
   \<and> JobList_in_memory getTime localeCompare w (Status st) s
         [[KStr ''jobs''] \<mapsto>
            \<lparr>state_data = Some (Job_pages \<lparr>pages = p # ps, pageParams = ns\<rparr>),
             state_error = None, isInvalidated = i\<rparr>]
         fetching False
       = (case getNextPageParam w (last (p # ps)) of
            Inl e \<Rightarrow> Inl e
          | Inr param \<Rightarrow>
              Inr (if flatMap_results (p # ps) = [] then No_jobs_yet_page
                   else List_view
                     (Heading_status_loaded
                        (length (filter (\<lambda>j. current_status j = Some st) (flatMap_results (p # ps))))
                        (STATUS_LABELS st) (length (flatMap_results (p # ps))))
                     (if filter (\<lambda>j. current_status j = Some st) (flatMap_results (p # ps)) = []
                      then No_jobs_with_status (STATUS_LABELS st)
                      else Cards (Array_sort (compare_jobs getTime localeCompare s)
                                    (filter (\<lambda>j. current_status j = Some st)
                                       (flatMap_results (p # ps)))))
                     (load_more_button (param \<noteq> None) False (count p)
                        (length (flatMap_results (p # ps))))))
   \<and> mset (Array_sort (compare_jobs getTime localeCompare s)
              (filter (\<lambda>j. current_status j = Some st) jobs))
       = filter_mset (\<lambda>j. current_status j = Some st) (mset jobs)"
proof -
  have status_not_all: "status_string x \<noteq> ''ALL''" for x
    by (cases x) simp_all
  have request: "JobList_queryFn w http f s n
     = (case http \<lparr>req_method = GET, path = ''/api/jobs/'',
                   params = [(''page'', String_int n), (''sort'', sort_string s)]
                            @ (case f of ALL_filter \<Rightarrow> [] | Status st \<Rightarrow> [(''status'', status_string st)]),
                   body = None\<rparr> of
          None \<Rightarrow> Inl TypeError
        | Some res \<Rightarrow> handleResponse (as_page w) res)"
    by (cases f) (simp_all add: JobList_queryFn_def fetchJobs_def BASE_def status_not_all)
  have keyed: "JobList w f s
         [JobList_queryKey f s \<mapsto>
            \<lparr>state_data = Some (Job_pages \<lparr>pages = p # ps, pageParams = ns\<rparr>),
             state_error = None, isInvalidated = i\<rparr>]
         fetching False
       = (case getNextPageParam w (last (p # ps)) of
            Inl e \<Rightarrow> Inl e
          | Inr param \<Rightarrow>
              Inr (List_view
                     (if f \<noteq> ALL_filter
                      then Heading_status (length (flatMap_results (p # ps))) (filter_label f) (count p)
                      else Heading_all (length (flatMap_results (p # ps))) (count p))
                     (if flatMap_results (p # ps) = []
                      then (if f = ALL_filter then No_jobs_yet else No_jobs_with_status (filter_label f))
                      else Cards (flatMap_results (p # ps)))
                     (load_more_button (param \<noteq> None) False (count p)
                        (length (flatMap_results (p # ps))))))"
    by (simp add: JobList_def Let_def list_data_def held_def hasNextPage_def nextPageParam_def
        totalCount_def split: sum.splits)
  have same_read: "JobList_in_memory_read w opts https f s cache
       = JobList_in_memory_read w opts https ALL_filter newest cache"
    by (simp add: JobList_in_memory_read_def JobList_in_memory_queryKey_def)
  have in_memory: "JobList_in_memory getTime localeCompare w (Status st) s
         [[KStr ''jobs''] \<mapsto>
            \<lparr>state_data = Some (Job_pages \<lparr>pages = p # ps, pageParams = ns\<rparr>),
             state_error = None, isInvalidated = i\<rparr>]
         fetching False
       = (case getNextPageParam w (last (p # ps)) of
            Inl e \<Rightarrow> Inl e
          | Inr param \<Rightarrow>
              Inr (if flatMap_results (p # ps) = [] then No_jobs_yet_page
                   else List_view
                     (Heading_status_loaded
                        (length (filter (\<lambda>j. current_status j = Some st) (flatMap_results (p # ps))))
                        (STATUS_LABELS st) (length (flatMap_results (p # ps))))
                     (if filter (\<lambda>j. current_status j = Some st) (flatMap_results (p # ps)) = []
                      then No_jobs_with_status (STATUS_LABELS st)
                      else Cards (Array_sort (compare_jobs getTime localeCompare s)
                                    (filter (\<lambda>j. current_status j = Some st)
                                       (flatMap_results (p # ps)))))
                     (load_more_button (param \<noteq> None) False (count p)
                        (length (flatMap_results (p # ps))))))"
  proof -
    have empty_iff: "Array_sort cmp xs = [] \<longleftrightarrow> xs = []" for cmp :: "Job \<Rightarrow> Job \<Rightarrow> int option" and xs
      using mset_Array_sort [of cmp xs] by (metis mset_zero_iff)
    show ?thesis
      by (cases "getNextPageParam w (last (p # ps))")
         (simp_all add: JobList_in_memory_def JobList_in_memory_queryKey_def Let_def list_data_def
            held_def hasNextPage_def nextPageParam_def totalCount_def filtered_jobs_def
            filter_label_def empty_iff del: last.simps)
  qed
  have shown: "mset (Array_sort (compare_jobs getTime localeCompare s)
              (filter (\<lambda>j. current_status j = Some st) jobs))
       = filter_mset (\<lambda>j. current_status j = Some st) (mset jobs)"
    by (simp add: mset_Array_sort)
  from request keyed in_memory_request [of w http n] same_read in_memory shown
  show ?thesis by simp
qed

theorem filter_on_the_server_or_over_loaded_pages_witness:
  "JobList_read small_world queryClient (every_run small_backend) (Status RUNNING) newest no_queries
     = [JobList_queryKey (Status RUNNING) newest \<mapsto>
          \<lparr>state_data = Some (Job_pages \<lparr>pages = [read_page running_json], pageParams = [1]\<rparr>),
           state_error = None, isInvalidated = False\<rparr>]
   \<and> JobList small_world (Status RUNNING) newest
        (JobList_read small_world queryClient (every_run small_backend) (Status RUNNING) newest
           no_queries) False False
     = Inr (List_view (Heading_status 1 ''Running'' 1) (Cards [job1]) None)"
proof -
  have held_page: "JobList_read small_world queryClient (every_run small_backend) (Status RUNNING)
      newest no_queries
     = [JobList_queryKey (Status RUNNING) newest \<mapsto>
          \<lparr>state_data = Some (Job_pages \<lparr>pages = [read_page running_json], pageParams = [1]\<rparr>),
           state_error = None, isInvalidated = False\<rparr>]"
    using read_running_list by (simp add: no_queries_def)
  from filter_on_the_server_or_over_loaded_pages
    [of small_world small_backend "Status RUNNING" newest 1 "read_page running_json" "[]" "[1]"
        False False queryClient "every_run small_backend" no_queries small_getTime compare_units
        RUNNING "[job1]"]
  show ?thesis
    unfolding held_page
    by (simp add: read_running flatMap_results_def getNextPageParam_def filter_label_def
        load_more_button_def)
qed











end
